theory Spec2Isabelle
  imports
    Complex_Main
    "HOL-Library.Word"
    "HOL-Library.Char_ord"
    "HOL-Library.List_Lexorder"
    "HOL-Library.Sublist"
begin

section \<open>Values shared by both tools\<close>

text \<open>
  Python \<open>bytes\<close> are lists of 8-bit words. Python \<open>str\<close> is modelled by \<open>string\<close>:
  every character of the model is one code point below 256, so \<open>length\<close> is Python's
  \<open>len\<close> on such text.
\<close>

type_synonym byte = "8 word"
type_synonym bytes = "byte list"

text \<open>
  Exceptions are values. The constructor is the Python class as far as the handlers of the
  two tools tell classes apart; the argument is \<open>str(e)\<close>. \<open>LibraryError\<close> stands for the
  exceptions of the standard library and of third-party packages (\<open>wave.Error\<close>,
  \<open>audioop.error\<close>, \<open>OSError\<close>, \<open>AttributeError\<close>, ...), all subclasses of \<open>Exception\<close>.
\<close>

datatype exn =
    ValueError string
  | Exception string
  | ImportError string
  | Timeout string
  | RequestException string
  | LibraryError string

fun str_exn :: "exn \<Rightarrow> string" where
  "str_exn (ValueError m) = m"
| "str_exn (Exception m) = m"
| "str_exn (ImportError m) = m"
| "str_exn (Timeout m) = m"
| "str_exn (RequestException m) = m"
| "str_exn (LibraryError m) = m"

text \<open>
  Effects are recorded as a list of events, oldest first: the calls of \<open>logger\<close>, the reads
  of the WAV reader, the calls of the transcoding library, the HTTP requests, the opening
  of a file and the calls of the tool's own helper methods from \<open>_invoke\<close>. A log
  record keeps its level and its text; where the text interpolates a value the model does
  not carry (\<open>type(audio_file)\<close>, the \<open>repr\<close> of a dict) the placeholder is kept as written
  in the source.
\<close>

datatype level = DEBUG | INFO | WARNING | ERROR

record post_request =
  post_url :: string
  post_headers :: "(string \<times> string) list"
  post_params :: "(string \<times> string) list"
  post_form :: "(string \<times> string) list"
  post_body :: bytes
  post_timeout :: nat

datatype event =
    Log level string
  | ReadFrames nat
  | Transcode bytes
  | HttpGet string nat
  | HttpPost post_request
  | OpenFile string
  | Call string

text \<open>Decimal text of a natural number, as \<open>str\<close> and f-strings print it.\<close>

definition digit_char :: "nat \<Rightarrow> char" where
  "digit_char d = ''0123456789'' ! d"

function str_nat :: "nat \<Rightarrow> string" where
  "str_nat n = (if n < 10 then [digit_char n] else str_nat (n div 10) @ [digit_char (n mod 10)])"
  by pat_completeness auto
termination
  by (relation "measure id") auto

declare str_nat.simps [simp del]

section \<open>The standard library's \<open>wave\<close> and \<open>audioop\<close>, as the speech-to-text tool uses them\<close>

text \<open>
  What \<open>wave.open(BytesIO(wav_data), "rb")\<close> gives on success: the values of the header,
  and the bytes that the data chunk really holds. \<open>bitspersample\<close> is the field
  \<open>wBitsPerSample\<close> of the format chunk. \<open>getnframes()\<close> is computed by \<open>wave\<close> from the
  size the chunk header declares, so a truncated file has fewer bytes in \<open>chunk\<close> than
  \<open>nframes\<close> frames.
\<close>

record wav_reader =
  framerate :: nat
  bitspersample :: nat
  nchannels :: nat
  nframes :: nat
  chunk :: bytes

text \<open>
  \<open>getsampwidth()\<close>: the width in bytes, which \<open>wave\<close> computes as
  \<open>(wBitsPerSample + 7) // 8\<close>. Every depth from 9 to 16 bits has width 2.
\<close>

definition sampwidth :: "wav_reader \<Rightarrow> nat" where
  "sampwidth r = (bitspersample r + 7) div 8"

text \<open>\<open>Wave_read.readframes(n)\<close>: at most \<open>n\<close> frames from the start of the data chunk.\<close>

definition readframes :: "wav_reader \<Rightarrow> nat \<Rightarrow> bytes" where
  "readframes r n = (if n = 0 then [] else take (n * (nchannels r * sampwidth r)) (chunk r))"

text \<open>
  \<open>audioop\<close> at width 2, the only width the tool passes on: a sample is two bytes, little
  endian, two's complement.
\<close>

definition s16 :: "byte \<Rightarrow> byte \<Rightarrow> int" where
  "s16 lo hi = (let u = uint lo + 256 * uint hi in if 32768 \<le> u then u - 65536 else u)"

fun samples16 :: "bytes \<Rightarrow> int list" where
  "samples16 (lo # hi # rest) = s16 lo hi # samples16 rest"
| "samples16 [b] = []"
| "samples16 [] = []"

definition bytes16 :: "int \<Rightarrow> bytes" where
  "bytes16 v = [word_of_int v, word_of_int (v div 256)]"

definition pack16 :: "int list \<Rightarrow> bytes" where
  "pack16 vs = concat (map bytes16 vs)"

text \<open>
  \<open>fbound\<close> of audioop.c with \<open>minval = -32768\<close> and \<open>maxval = 32767\<close>: clip, then round towards
  minus infinity. The value is a C double; the products and half sums of 16-bit samples
  with the factors 0.5, 2.0 and 4.0 are exact in a double, so it is a rational here.
\<close>

definition fbound :: "rat \<Rightarrow> int" where
  "fbound val = \<lfloor>if val > 32767 then 32767 else if val < - 32768 + 1 then - 32768 else val\<rfloor>"

definition audioop_error :: exn where
  "audioop_error = LibraryError ''not a whole number of frames''"

text \<open>\<open>audioop.tomono(fragment, 2, lfactor, rfactor)\<close>.\<close>

fun tomono_samples :: "rat \<Rightarrow> rat \<Rightarrow> int list \<Rightarrow> int list" where
  "tomono_samples lf rf (l # r # rest) = fbound (of_int l * lf + of_int r * rf) # tomono_samples lf rf rest"
| "tomono_samples lf rf [v] = []"
| "tomono_samples lf rf [] = []"

definition audioop_tomono :: "bytes \<Rightarrow> rat \<Rightarrow> rat \<Rightarrow> exn + bytes" where
  "audioop_tomono fragment lfactor rfactor =
     (if length fragment mod 2 \<noteq> 0 then Inl audioop_error
      else if (length fragment div 2) mod 2 \<noteq> 0 then Inl audioop_error
      else Inr (pack16 (tomono_samples lfactor rfactor (samples16 fragment))))"

text \<open>
  \<open>audioop.rms(fragment, 2)\<close>: the square root of the mean of the squares, cut to an
  unsigned integer; 0 on the empty fragment. The floor of the root of a quotient is the
  integer root of the integer quotient. (The C code sums in a double, which is exact below
  \<open>2^53\<close>, that is for every fragment of fewer than \<open>2^23\<close> samples.)
\<close>

function sqrt_search :: "nat \<Rightarrow> nat \<Rightarrow> nat" where
  "sqrt_search k n = (if (k + 1) * (k + 1) \<le> n then sqrt_search (k + 1) n else k)"
  by pat_completeness auto
termination
proof (relation "measure (\<lambda>(k, n). n - k)")
  show "wf (measure (\<lambda>(k, n). n - k))" by simp
next
  fix k n :: nat
  assume "(k + 1) * (k + 1) \<le> n"
  moreover have "k + 1 \<le> (k + 1) * (k + 1)" by simp
  ultimately have "k < n" by linarith
  then show "((k + 1, n), (k, n)) \<in> measure (\<lambda>(k, n). n - k)" by simp
qed

declare sqrt_search.simps [simp del]

definition isqrt :: "nat \<Rightarrow> nat" where
  "isqrt n = sqrt_search 0 n"

definition sum_squares :: "int list \<Rightarrow> nat" where
  "sum_squares vs = sum_list (map (\<lambda>v. nat (v * v)) vs)"

definition audioop_rms :: "bytes \<Rightarrow> exn + nat" where
  "audioop_rms fragment =
     (if length fragment mod 2 \<noteq> 0 then Inl audioop_error
      else if fragment = [] then Inr 0
      else Inr (isqrt (sum_squares (samples16 fragment) div (length fragment div 2))))"

text \<open>\<open>audioop.mul(fragment, 2, factor)\<close>.\<close>

definition audioop_mul :: "bytes \<Rightarrow> rat \<Rightarrow> exn + bytes" where
  "audioop_mul fragment factor =
     (if length fragment mod 2 \<noteq> 0 then Inl audioop_error
      else Inr (pack16 (map (\<lambda>v. fbound (of_int v * factor)) (samples16 fragment))))"

section \<open>\<open>SpeechToTextTool._convert_wav_to_pcm\<close>\<close>

text \<open>
  Lines 274 to 278: the gain chosen from the RMS. \<open>rms and rms < 300\<close> is false at
  \<open>rms = 0\<close>.
\<close>

definition select_gain :: "nat \<Rightarrow> rat" where
  "select_gain rms =
     (if rms \<noteq> 0 \<and> rms < 300 then 4
      else if rms \<noteq> 0 \<and> rms < 1000 then 2
      else 1)"

text \<open>How the f-string prints the three gains.\<close>

definition str_gain :: "rat \<Rightarrow> string" where
  "str_gain g = (if g = 4 then ''4.0'' else if g = 2 then ''2.0'' else ''1.0'')"

text \<open>
  Lines 271 to 283: the inner \<open>try\<close>; an exception of \<open>audioop.rms\<close> or \<open>audioop.mul\<close> is
  swallowed and the fragment stays as it was.
\<close>

definition gain_normalization :: "bytes \<Rightarrow> event list \<times> bytes" where
  "gain_normalization raw =
     (case audioop_rms raw of
        Inl e \<Rightarrow> ([], raw)
      | Inr rms \<Rightarrow>
          let gain = select_gain rms in
          if gain \<noteq> 1 then
            (case audioop_mul raw gain of
               Inl e \<Rightarrow> ([], raw)
             | Inr raw' \<Rightarrow>
                 ([Log INFO (''Applied gain x'' @ str_gain gain @ '', previous RMS='' @ str_nat rms)],
                  raw'))
          else ([], raw))"

text \<open>The outer handler, lines 287 to 289: log, then raise \<open>ValueError\<close> around the message.\<close>

definition wav_failure :: "event list \<Rightarrow> exn \<Rightarrow> event list \<times> (exn + bytes \<times> nat)" where
  "wav_failure evs e =
     (evs @ [Log ERROR (''WAV to PCM conversion failed: '' @ str_exn e)],
      Inl (ValueError (''Failed to process WAV file: '' @ str_exn e)))"

text \<open>
  The function itself. \<open>wopen\<close> is the library call \<open>wave.open(BytesIO(wav_data), "rb")\<close>,
  which raises on bytes that are no WAV container. The two imports at the head of the
  \<open>try\<close> succeed: the interpreter has \<open>audioop\<close> and \<open>wave\<close>.
\<close>

definition convert_wav_to_pcm ::
    "(bytes \<Rightarrow> exn + wav_reader) \<Rightarrow> bytes \<Rightarrow> event list \<times> (exn + bytes \<times> nat)" where
  "convert_wav_to_pcm wopen wav_data =
     (case wopen wav_data of
        Inl e \<Rightarrow> wav_failure [] e
      | Inr wav_reader \<Rightarrow>
          let src_rate = framerate wav_reader;
              sample_width = sampwidth wav_reader;
              channels = nchannels wav_reader;
              frames = nframes wav_reader
          in
          if sample_width \<noteq> 2 then
            wav_failure []
              (ValueError (''Unsupported WAV sample width: '' @ str_nat (sample_width * 8)
                           @ '' bits. Only 16-bit PCM supported''))
          else
            let raw = readframes wav_reader frames;
                evs = [ReadFrames frames]
            in
            (case (if channels > 1 then audioop_tomono raw (1 / 2) (1 / 2) else Inr raw) of
               Inl e \<Rightarrow> wav_failure evs e
             | Inr raw1 \<Rightarrow>
                 let (gevs, out) = gain_normalization raw1
                 in (evs @ gevs, Inr (out, src_rate))))"

section \<open>Python values, JSON and HTTP\<close>

text \<open>The plain Python values that the metadata mapping of an audio reference can hold.\<close>

datatype pyval = PyNone | PyBool bool | PyInt int | PyStr string | PyBytes bytes

fun truthy :: "pyval \<Rightarrow> bool" where
  "truthy PyNone = False"
| "truthy (PyBool b) = b"
| "truthy (PyInt i) = (i \<noteq> 0)"
| "truthy (PyStr s) = (s \<noteq> [])"
| "truthy (PyBytes b) = (b \<noteq> [])"

text \<open>\<open>a or b\<close>.\<close>

definition py_or :: "pyval \<Rightarrow> pyval \<Rightarrow> pyval" where
  "py_or a b = (if truthy a then a else b)"

text \<open>\<open>d.get(k)\<close> on a dict given as an association list: \<open>None\<close> when the key is absent.\<close>

definition dict_get :: "(string \<times> pyval) list \<Rightarrow> string \<Rightarrow> pyval" where
  "dict_get d k = (case map_of d k of None \<Rightarrow> PyNone | Some v \<Rightarrow> v)"

text \<open>A decoded JSON document, as \<open>response.json()\<close> returns it.\<close>

datatype json =
    JNull
  | JBool bool
  | JNum rat
  | JStr string
  | JArr "json list"
  | JObj "(string \<times> json) list"

fun truthy_json :: "json \<Rightarrow> bool" where
  "truthy_json JNull = False"
| "truthy_json (JBool b) = b"
| "truthy_json (JNum r) = (r \<noteq> 0)"
| "truthy_json (JStr s) = (s \<noteq> [])"
| "truthy_json (JArr xs) = (xs \<noteq> [])"
| "truthy_json (JObj kvs) = (kvs \<noteq> [])"

definition attribute_error :: exn where
  "attribute_error = LibraryError ''object has no attribute get''"

text \<open>
  \<open>j.get(k, default)\<close>: a lookup when \<open>j\<close> is a dict, \<open>AttributeError\<close> otherwise (lists,
  strings, numbers and \<open>None\<close> have no \<open>get\<close>).
\<close>

fun json_get :: "json \<Rightarrow> string \<Rightarrow> json \<Rightarrow> exn + json" where
  "json_get (JObj kvs) k dflt = Inr (case map_of kvs k of None \<Rightarrow> dflt | Some v \<Rightarrow> v)"
| "json_get j k dflt = Inl attribute_error"

record http_response =
  status_code :: nat
  content :: bytes
  text_body :: string
  json_body :: "exn + json"

text \<open>\<open>Response.raise_for_status()\<close>: \<open>HTTPError\<close> on a 4xx or 5xx status.\<close>

definition raise_for_status :: "http_response \<Rightarrow> exn option" where
  "raise_for_status resp =
     (if 400 \<le> status_code resp \<and> status_code resp < 600
      then Some (RequestException (str_nat (status_code resp) @ '' Error''))
      else None)"

text \<open>The messages a tool yields to the host runtime.\<close>

datatype message =
    TextMessage string
  | JsonMessage "(string \<times> json) list"
  | BlobMessage bytes "(string \<times> string) list"

section \<open>The audio reference and the tool's surroundings\<close>

text \<open>
  What a fetch can hand back: bytes, or some other object that may expose \<open>blob\<close>,
  \<open>content\<close> or \<open>download()\<close>. An absent attribute is \<open>None\<close>.
\<close>

record payload_object =
  po_blob :: "bytes option"
  po_content :: "bytes option"
  po_download :: "(exn + bytes) option"

datatype payload = Bytes bytes | Object payload_object

text \<open>
  An object that is neither \<open>bytes\<close>, \<open>str\<close> nor \<open>dict\<close>, seen through the attributes the
  tool probes with \<open>hasattr\<close>. A method is given by the outcome of calling it. The instance
  \<open>__dict__\<close> holds no key that is not also an attribute.
\<close>

record file_object =
  fo_download :: "(exn + payload) option"
  fo_blob :: "payload option"
  fo_read :: "(exn + bytes) option"
  fo_content :: "bytes option"
  fo_data :: "bytes option"
  fo_remote_url :: "pyval option"
  fo_url :: "pyval option"
  fo_id :: "pyval option"
  fo_related_id :: "pyval option"

datatype audio_file =
    FileObject file_object
  | RawBytes bytes
  | FilePath string
  | Metadata "(string \<times> pyval) list"

text \<open>
  The attributes that \<open>hasattr\<close> finds on a reference: those of the object, and none of
  the probed names on \<open>bytes\<close>, \<open>str\<close> and \<open>dict\<close>.
\<close>

definition no_attributes :: file_object where
  "no_attributes =
     \<lparr>fo_download = None, fo_blob = None, fo_read = None, fo_content = None, fo_data = None,
      fo_remote_url = None, fo_url = None, fo_id = None, fo_related_id = None\<rparr>"

fun attrs :: "audio_file \<Rightarrow> file_object" where
  "attrs (FileObject f) = f"
| "attrs (RawBytes b) = no_attributes"
| "attrs (FilePath p) = no_attributes"
| "attrs (Metadata d) = no_attributes"

text \<open>
  Everything outside the tool: the libraries, the network, the file system, the credentials
  and the fetch methods that the host runtime may or may not offer on the tool, its
  \<open>runtime\<close> and its \<open>session\<close>.
\<close>

type_synonym accessor = "pyval \<Rightarrow> exn + payload"

record environment =
  wave_open :: "bytes \<Rightarrow> exn + wav_reader"
  pydub_installed :: bool
  ffmpeg_found :: bool
  pydub_to_wav :: "bytes \<Rightarrow> exn + bytes"
  http_get :: "string \<Rightarrow> nat \<Rightarrow> exn + http_response"
  http_post :: "post_request \<Rightarrow> exn + http_response"
  open_read :: "string \<Rightarrow> exn + bytes"
  api_key :: "string option"
  self_get_file_content :: "accessor option"
  runtime_get_file_content :: "accessor option"
  runtime_get_file :: "accessor option"
  session_get_file_content :: "accessor option"
  session_get_file :: "accessor option"
  session_files_get :: "accessor option"
  session_file_get :: "accessor option"
  py_repr :: "json \<Rightarrow> string"
  str_float :: "rat \<Rightarrow> string"

section \<open>\<open>SpeechToTextTool._get_audio_data_from_file\<close>\<close>

text \<open>\<open>s.lower()\<close> on the letters A to Z; no other character becomes a letter of a URL scheme.\<close>

definition lower_char :: "char \<Rightarrow> char" where
  "lower_char c =
     (case map_of (zip ''ABCDEFGHIJKLMNOPQRSTUVWXYZ'' ''abcdefghijklmnopqrstuvwxyz'') c of
        None \<Rightarrow> c
      | Some l \<Rightarrow> l)"

definition lower :: "string \<Rightarrow> string" where
  "lower s = map lower_char s"

text \<open>\<open>s.startswith(p)\<close>.\<close>

definition startswith :: "string \<Rightarrow> string \<Rightarrow> bool" where
  "startswith s p = (take (length p) s = p)"

text \<open>
  \<open>isinstance(remote_url, str) and remote_url.lower().startswith(("http://", "https://"))\<close>:
  the URL when the test passes.
\<close>

fun absolute_url :: "pyval \<Rightarrow> string option" where
  "absolute_url (PyStr u) =
     (if startswith (lower u) ''http://'' \<or> startswith (lower u) ''https://'' then Some u else None)"
| "absolute_url v = None"

text \<open>
  \<open>requests.get(remote_url, timeout=30)\<close>, \<open>raise_for_status()\<close>, \<open>resp.content\<close>: the
  body, or the exception that the \<open>try\<close> around the fetch catches.
\<close>

definition fetch_url :: "environment \<Rightarrow> string \<Rightarrow> exn + bytes" where
  "fetch_url env remote_url =
     (case http_get env remote_url 30 of
        Inl e \<Rightarrow> Inl e
      | Inr resp \<Rightarrow>
          (case raise_for_status resp of
             Some e \<Rightarrow> Inl e
           | None \<Rightarrow> Inr (content resp)))"

text \<open>The handler of the whole function, lines 206 to 208: log the exception, raise it again.\<close>

definition extract_failure :: "event list \<Rightarrow> exn \<Rightarrow> event list \<times> (exn + payload)" where
  "extract_failure evs e = (evs @ [Log ERROR (''Error extracting audio data: '' @ str_exn e)], Inl e)"

text \<open>
  Lines 138 to 172, the loop over the fetch methods for a metadata mapping: the first
  method that is callable and gives bytes, or an object with \<open>blob\<close>, \<open>content\<close> or
  \<open>download\<close>, ends the function with that value; an exception is logged at debug level
  and the loop goes on.
\<close>

fun try_accessors :: "accessor option list \<Rightarrow> pyval \<Rightarrow> event list \<times> bytes option" where
  "try_accessors [] related_id = ([], None)"
| "try_accessors (None # rest) related_id = try_accessors rest related_id"
| "try_accessors (Some accessor # rest) related_id =
     (let failed = (\<lambda>e. let (evs, r) = try_accessors rest related_id
                         in (Log DEBUG (''SDK fetch attempt failed: '' @ str_exn e) # evs, r))
      in
      case accessor related_id of
        Inl e \<Rightarrow> failed e
      | Inr (Bytes b) \<Rightarrow> ([], Some b)
      | Inr (Object res) \<Rightarrow>
          (case po_blob res of
             Some b \<Rightarrow> ([], Some b)
           | None \<Rightarrow>
               (case po_content res of
                  Some b \<Rightarrow> ([], Some b)
                | None \<Rightarrow>
                    (case po_download res of
                       Some (Inr b) \<Rightarrow> ([], Some b)
                     | Some (Inl e) \<Rightarrow> failed e
                     | None \<Rightarrow> try_accessors rest related_id))))"

definition metadata_accessors :: "environment \<Rightarrow> accessor option list" where
  "metadata_accessors env =
     [self_get_file_content env, runtime_get_file_content env, runtime_get_file env,
      session_get_file_content env, session_get_file env, session_files_get env,
      session_file_get env]"

text \<open>Lines 174 to 191: the absolute URL of a metadata mapping, then the final \<open>ValueError\<close>.\<close>

definition metadata_url :: "environment \<Rightarrow> event list \<Rightarrow> (string \<times> pyval) list \<Rightarrow> event list \<times> (exn + payload)" where
  "metadata_url env evs d =
     (let remote_url = py_or (dict_get d ''remote_url'') (dict_get d ''url'');
          no_bytes = ValueError (''Could not retrieve file bytes from provided metadata (no SDK method worked, ''
                                 @ ''and no absolute URL available).'')
      in
      case absolute_url remote_url of
        None \<Rightarrow> extract_failure evs no_bytes
      | Some u \<Rightarrow>
          (let evs1 = evs @ [Log INFO (''Fetching file via absolute URL: '' @ u), HttpGet u 30] in
           case fetch_url env u of
             Inr body \<Rightarrow> (evs1, Inr (Bytes body))
           | Inl url_err \<Rightarrow>
               extract_failure (evs1 @ [Log DEBUG (''Absolute URL fetch failed: '' @ str_exn url_err)])
                 no_bytes))"

text \<open>
  Lines 60 to 109, for an object with \<open>download\<close> or \<open>blob\<close> on which neither those nor
  \<open>read\<close>, \<open>content\<close>, \<open>data\<close> gave a value: the absolute URL, then the fetch by id through
  the tool or its runtime, then the final \<open>ValueError\<close>.
\<close>

definition first_truthy :: "pyval option \<Rightarrow> pyval option \<Rightarrow> pyval" where
  "first_truthy a b =
     (case a of
        Some v \<Rightarrow> (if truthy v then v else (case b of Some w \<Rightarrow> w | None \<Rightarrow> v))
      | None \<Rightarrow> (case b of Some w \<Rightarrow> w | None \<Rightarrow> PyNone))"

definition object_by_id :: "environment \<Rightarrow> event list \<Rightarrow> file_object \<Rightarrow> event list \<times> (exn + payload)" where
  "object_by_id env evs f =
     (let file_id = first_truthy (fo_id f) (fo_related_id f);
          nothing = ValueError (''Could not read Dify File object: no blob/download/read/data/content available, ''
                                @ ''no absolute URL, and SDK file fetch by id not supported in this runtime.'');
          call = (\<lambda>accessor. case accessor file_id of
                    Inr p \<Rightarrow> (evs, Inr p)
                  | Inl id_err \<Rightarrow>
                      extract_failure (evs @ [Log WARNING (''Failed to fetch via SDK by id: '' @ str_exn id_err)])
                        nothing)
      in
      if truthy file_id then
        (case self_get_file_content env of
           Some accessor \<Rightarrow> call accessor
         | None \<Rightarrow>
             (case runtime_get_file_content env of
                Some accessor \<Rightarrow> call accessor
              | None \<Rightarrow>
                  (case runtime_get_file env of
                     Some accessor \<Rightarrow> call accessor
                   | None \<Rightarrow> extract_failure evs nothing)))
      else extract_failure evs nothing)"

definition object_url :: "environment \<Rightarrow> event list \<Rightarrow> file_object \<Rightarrow> event list \<times> (exn + payload)" where
  "object_url env evs f =
     (let remote_url = (case fo_remote_url f of
                          Some v \<Rightarrow> v
                        | None \<Rightarrow> (case fo_url f of Some v \<Rightarrow> v | None \<Rightarrow> PyNone))
      in
      case absolute_url remote_url of
        None \<Rightarrow> object_by_id env evs f
      | Some u \<Rightarrow>
          (let evs1 = evs @ [Log INFO (''Fetching file via absolute URL: '' @ u), HttpGet u 30] in
           case fetch_url env u of
             Inr body \<Rightarrow> (evs1, Inr (Bytes body))
           | Inl url_err \<Rightarrow>
               object_by_id env
                 (evs1 @ [Log WARNING (''Failed to fetch via absolute URL: '' @ str_exn url_err)]) f))"

text \<open>Lines 48 to 58: \<open>blob\<close> when it is bytes, then \<open>read()\<close>, \<open>content\<close>, \<open>data\<close>.\<close>

definition object_fallbacks :: "environment \<Rightarrow> event list \<Rightarrow> file_object \<Rightarrow> event list \<times> (exn + payload)" where
  "object_fallbacks env evs f =
     (case fo_blob f of
        Some (Bytes b) \<Rightarrow> (evs, Inr (Bytes b))
      | other \<Rightarrow>
          (case fo_read f of
             Some (Inr b) \<Rightarrow> (evs, Inr (Bytes b))
           | Some (Inl e) \<Rightarrow> extract_failure evs e
           | None \<Rightarrow>
               (case fo_content f of
                  Some b \<Rightarrow> (evs, Inr (Bytes b))
                | None \<Rightarrow>
                    (case fo_data f of
                       Some b \<Rightarrow> (evs, Inr (Bytes b))
                     | None \<Rightarrow> object_url env evs f))))"

text \<open>The function. The first log line is written for every reference.\<close>

definition get_audio_data_from_file :: "environment \<Rightarrow> audio_file \<Rightarrow> event list \<times> (exn + payload)" where
  "get_audio_data_from_file env audio_file =
     (let evs0 = [Log INFO ''Processing audio file of type: {type(audio_file)}''];
          f = attrs audio_file
      in
      if fo_download f \<noteq> None \<or> fo_blob f \<noteq> None then
        (let evs1 = evs0 @ [Log INFO ''Processing Dify File object via download/blob''] in
         case fo_download f of
           Some (Inl e) \<Rightarrow> extract_failure evs1 e
         | Some (Inr (Bytes b)) \<Rightarrow> (evs1, Inr (Bytes b))
         | Some (Inr (Object res)) \<Rightarrow>
             (case po_content res of
                Some b \<Rightarrow> (evs1, Inr (Bytes b))
              | None \<Rightarrow> object_fallbacks env evs1 f)
         | None \<Rightarrow> object_fallbacks env evs1 f)
      else
        (case fo_read f of
           Some r \<Rightarrow>
             (let evs1 = evs0 @ [Log INFO ''Processing file-like object with read() method''] in
              case r of
                Inr b \<Rightarrow>
                  (evs1 @ [Log INFO (''Successfully read file content, size: '' @ str_nat (length b) @ '' bytes'')],
                   Inr (Bytes b))
              | Inl e \<Rightarrow> extract_failure evs1 e)
         | None \<Rightarrow>
             (case audio_file of
                RawBytes b \<Rightarrow> (evs0 @ [Log INFO ''Processing raw bytes data''], Inr (Bytes b))
              | FilePath path \<Rightarrow>
                  (let evs1 = evs0 @ [Log INFO (''Processing file path: '' @ path), OpenFile path] in
                   case open_read env path of
                     Inr b \<Rightarrow> (evs1, Inr (Bytes b))
                   | Inl e \<Rightarrow> extract_failure evs1 e)
              | Metadata d \<Rightarrow>
                  (let evs1 = evs0 @ [Log INFO ''Processing file metadata dict: {audio_file}''];
                       related_id = py_or (dict_get d ''related_id'') (dict_get d ''id'')
                   in
                   if truthy related_id then
                     (case try_accessors (metadata_accessors env) related_id of
                        (evs2, Some b) \<Rightarrow> (evs1 @ evs2, Inr (Bytes b))
                      | (evs2, None) \<Rightarrow> metadata_url env (evs1 @ evs2) d)
                   else metadata_url env evs1 d)
              | FileObject obj \<Rightarrow>
                  extract_failure (evs0 @ [Log INFO ''Available attributes: {attrs}''])
                    (ValueError (''Unsupported audio file type: {type(audio_file)}. ''
                                 @ ''Expected Dify File object with .blob property.'')))))"

section \<open>\<open>SpeechToTextTool._convert_audio_to_wav\<close>\<close>

text \<open>
  \<open>pydub_to_wav\<close> is the library pipeline of lines 225 to 235: \<open>AudioSegment.from_file\<close>,
  the three \<open>set_\<close> calls and the export to a WAV container. A missing pydub makes the
  \<open>import\<close> raise \<open>ImportError\<close>, which has a handler of its own.
\<close>

definition convert_audio_to_wav :: "environment \<Rightarrow> bytes \<Rightarrow> event list \<times> (exn + bytes)" where
  "convert_audio_to_wav env audio_data =
     (let not_available =
            ([Log ERROR ''pydub library is not installed. Please install it: pip install pydub''],
             Inl (ValueError ''Audio conversion library not available''))
      in
      if \<not> pydub_installed env then not_available
      else
        (let evs = (if \<not> ffmpeg_found env
                    then [Log WARNING ''FFmpeg not found, attempting conversion without it'']
                    else []) @ [Transcode audio_data]
         in
         case pydub_to_wav env audio_data of
           Inr wav \<Rightarrow> (evs, Inr wav)
         | Inl (ImportError m) \<Rightarrow> (evs @ fst not_available, snd not_available)
         | Inl e \<Rightarrow>
             (evs @ [Log ERROR (''Audio conversion failed: '' @ str_exn e)],
              Inl (ValueError (''Failed to convert audio: '' @ str_exn e)))))"

section \<open>\<open>SpeechToTextTool._invoke\<close>\<close>

text \<open>
  Lines 322 to 333: the direct parse, and on any exception of it the transcoding followed by
  the second parse, outside any handler but the one of the whole method. Each call of one
  of the two conversion methods is recorded before the events of the call.
\<close>

definition normalization_decision :: "environment \<Rightarrow> bytes \<Rightarrow> event list \<times> (exn + bytes \<times> nat)" where
  "normalization_decision env audio_data =
     (case convert_wav_to_pcm (wave_open env) audio_data of
        (evs1, Inr pcm) \<Rightarrow>
          (Call ''_convert_wav_to_pcm'' # evs1 @ [Log INFO ''Audio processed as WAV directly''], Inr pcm)
      | (evs1, Inl e1) \<Rightarrow>
          (let evs2 = Call ''_convert_wav_to_pcm'' # evs1
                      @ [Log INFO ''Converting audio to WAV format'', Call ''_convert_audio_to_wav'']
           in
           case convert_audio_to_wav env audio_data of
             (evs3, Inl e) \<Rightarrow> (evs2 @ evs3, Inl e)
           | (evs3, Inr wav_data) \<Rightarrow>
               (case convert_wav_to_pcm (wave_open env) wav_data of
                  (evs4, Inl e) \<Rightarrow> (evs2 @ evs3 @ Call ''_convert_wav_to_pcm'' # evs4, Inl e)
                | (evs4, Inr pcm) \<Rightarrow>
                    (evs2 @ evs3 @ Call ''_convert_wav_to_pcm'' # evs4
                     @ [Log INFO ''Audio converted and processed successfully''],
                     Inr pcm))))"

text \<open>
  The parameters of an invocation: \<open>tool_parameters.get\<close> gives \<open>None\<close> for an absent
  audio reference and the default for an absent language or topic.
\<close>

record stt_parameters =
  audio_file :: "audio_file option"
  language :: "string option"
  topic :: "string option"

text \<open>
  Truth values: empty bytes, the empty string and the empty dict are false; an object is
  true.
\<close>

fun truthy_audio_file :: "audio_file option \<Rightarrow> bool" where
  "truthy_audio_file None = False"
| "truthy_audio_file (Some (FileObject f)) = True"
| "truthy_audio_file (Some (RawBytes b)) = (b \<noteq> [])"
| "truthy_audio_file (Some (FilePath p)) = (p \<noteq> [])"
| "truthy_audio_file (Some (Metadata d)) = (d \<noteq> [])"

fun truthy_str :: "string option \<Rightarrow> bool" where
  "truthy_str None = False"
| "truthy_str (Some s) = (s \<noteq> [])"

text \<open>How an f-string prints a JSON value: a string as it is, anything else by \<open>py_repr\<close>.\<close>

fun format_json :: "environment \<Rightarrow> json \<Rightarrow> string" where
  "format_json env (JStr s) = s"
| "format_json env j = py_repr env j"

text \<open>
  What a run of the generator gives the host: the events, the messages yielded, and the
  exception that ended it, if one did.
\<close>

type_synonym outcome = "event list \<times> message list \<times> exn option"

text \<open>The handler of the whole method, lines 375 to 378: log, raise again.\<close>

definition stt_failure :: "event list \<Rightarrow> exn \<Rightarrow> outcome" where
  "stt_failure evs e = (evs @ [Log ERROR (''Speech recognition error: '' @ str_exn e)], [], Some e)"

text \<open>Lines 354 to 363: the message for a status other than 200.\<close>

definition stt_error_msg :: "environment \<Rightarrow> http_response \<Rightarrow> string" where
  "stt_error_msg env response =
     (let error_msg = ''API error: '' @ str_nat (status_code response);
          raw = error_msg @ '' - '' @ text_body response
      in
      case json_body response of
        Inl e \<Rightarrow> raw
      | Inr error_data \<Rightarrow>
          (case json_get error_data ''error'' (JObj []) of
             Inl e \<Rightarrow> raw
           | Inr err \<Rightarrow>
               (case json_get err ''message'' (JStr ''Unknown error'') of
                  Inl e \<Rightarrow> raw
                | Inr m \<Rightarrow> error_msg @ '' - '' @ format_json env m)))"

text \<open>Lines 335 to 350: the request to the recognition endpoint.\<close>

definition stt_request :: "string \<Rightarrow> string \<Rightarrow> string \<Rightarrow> bytes \<Rightarrow> nat \<Rightarrow> post_request" where
  "stt_request key lang tpc pcm_data sample_rate =
     \<lparr>post_url = ''https://stt.api.cloud.yandex.net/speech/v1/stt:recognize'',
      post_headers = [(''Authorization'', ''Api-Key '' @ key)],
      post_params = [(''lang'', lang), (''format'', ''lpcm''), (''topic'', tpc),
                     (''sampleRateHertz'', str_nat sample_rate)],
      post_form = [],
      post_body = pcm_data,
      post_timeout = 30\<rparr>"

text \<open>Lines 345 to 373: sending it and reading the response.\<close>

definition recognize :: "environment \<Rightarrow> event list \<Rightarrow> string \<Rightarrow> string \<Rightarrow> string \<Rightarrow> bytes \<Rightarrow> nat \<Rightarrow> outcome" where
  "recognize env evs key lang tpc pcm_data sample_rate =
     (let request = stt_request key lang tpc pcm_data sample_rate;
          evs1 = evs @ [Log INFO ''Making API request with params: {params}'', HttpPost request]
      in
      case http_post env request of
        Inl e \<Rightarrow> stt_failure evs1 e
      | Inr response \<Rightarrow>
          (let evs2 = evs1 @ [Log INFO (''API response status: '' @ str_nat (status_code response))] in
           if status_code response \<noteq> 200 then
             (let error_msg = stt_error_msg env response in
              stt_failure (evs2 @ [Log ERROR error_msg]) (Exception error_msg))
           else
             (case json_body response of
                Inl e \<Rightarrow> stt_failure evs2 e
              | Inr result \<Rightarrow>
                  (case json_get result ''result'' (JStr []) of
                     Inl e \<Rightarrow> stt_failure evs2 e
                   | Inr recognized_text \<Rightarrow>
                       if \<not> truthy_json recognized_text then
                         stt_failure evs2 (Exception ''No speech detected in the audio file'')
                       else
                         (case recognized_text of
                            JStr s \<Rightarrow>
                              (evs2 @ [Log INFO (''Recognition successful: '' @ take 100 s @ ''...'')],
                               [TextMessage s], None)
                          | other \<Rightarrow>
                              stt_failure evs2 (LibraryError ''recognized text is not a string''))))))"

text \<open>
  The method. A fetched object that is no bytes has no length, so the size log raises
  \<open>TypeError\<close>.
\<close>

definition invoke_stt :: "environment \<Rightarrow> stt_parameters \<Rightarrow> outcome" where
  "invoke_stt env tool_parameters =
     (let lang = (case language tool_parameters of None \<Rightarrow> ''ru-RU'' | Some l \<Rightarrow> l);
          tpc = (case topic tool_parameters of None \<Rightarrow> ''general'' | Some t \<Rightarrow> t)
      in
      case audio_file tool_parameters of
        None \<Rightarrow> stt_failure [] (Exception ''No audio file provided'')
      | Some af \<Rightarrow>
          if \<not> truthy_audio_file (Some af) then stt_failure [] (Exception ''No audio file provided'')
          else if \<not> truthy_str (api_key env) then stt_failure [] (Exception ''API key is required'')
          else
            (let key = (case api_key env of Some k \<Rightarrow> k | None \<Rightarrow> []);
                 read_failure = (\<lambda>evs e.
                    stt_failure (evs @ [Log ERROR (''Failed to read audio file: '' @ str_exn e)])
                      (Exception (''Failed to read audio file - '' @ str_exn e)))
             in
             case get_audio_data_from_file env af of
               (evs1, Inl e) \<Rightarrow> read_failure (Call ''_get_audio_data_from_file'' # evs1) e
             | (evs1, Inr (Bytes [])) \<Rightarrow>
                 read_failure (Call ''_get_audio_data_from_file'' # evs1) (Exception ''Could not read audio file'')
             | (evs1, Inr (Object obj)) \<Rightarrow>
                 stt_failure (Call ''_get_audio_data_from_file'' # evs1)
                   (LibraryError ''object has no len()'')
             | (evs1, Inr (Bytes audio_data)) \<Rightarrow>
                 (let evs2 = Call ''_get_audio_data_from_file'' # evs1
                       @ [Log INFO (''Processing audio file, size: '' @ str_nat (length audio_data) @ '' bytes'')]
                  in
                  case normalization_decision env audio_data of
                    (evs3, Inl e) \<Rightarrow> stt_failure (evs2 @ evs3) e
                  | (evs3, Inr (pcm_data, sample_rate)) \<Rightarrow>
                      recognize env (evs2 @ evs3) key lang tpc pcm_data sample_rate)))"

section \<open>\<open>TextToSpeechTool\<close>\<close>

text \<open>The keys of \<open>VOICE_DESCRIPTIONS\<close> (the descriptions themselves are never sent or returned).\<close>

definition VOICE_DESCRIPTIONS :: "string list" where
  "VOICE_DESCRIPTIONS =
     [''marina'', ''alena'', ''filipp'', ''jane'', ''omazh'', ''ermil'', ''zahar'', ''madi_ru'']"

definition VOICE_ALLOWED_EMOTIONS :: "(string \<times> string list) list" where
  "VOICE_ALLOWED_EMOTIONS =
     [(''marina'', [''neutral'', ''whisper'', ''friendly'']),
      (''alena'', [''neutral'', ''good'']),
      (''filipp'', [''neutral'']),
      (''jane'', [''neutral'', ''good'', ''evil'']),
      (''omazh'', [''neutral'', ''evil'']),
      (''ermil'', [''neutral'', ''good'']),
      (''zahar'', [''neutral'', ''good'']),
      (''madi_ru'', [''neutral''])]"

definition FORMAT_MIME :: "(string \<times> string) list" where
  "FORMAT_MIME = [(''mp3'', ''audio/mpeg''), (''oggopus'', ''audio/ogg'')]"

text \<open>
  The parameters of a synthesis request. \<open>None\<close> is an absent key, for which \<open>get\<close> gives
  the default. The text, the voice, the emotion and the format are strings. The speed is a
  number, or a value on which \<open>float()\<close> raises \<open>ValueError\<close> or \<open>TypeError\<close>.
\<close>

datatype speed_arg = SpeedNumber rat | SpeedInvalid

record tts_parameters =
  p_text :: "string option"
  p_voice :: "string option"
  p_emotion :: "string option"
  p_speed :: "speed_arg option"
  p_format :: "string option"

text \<open>The dict that \<open>_validate_parameters\<close> returns.\<close>

record synthesis_parameters =
  sp_text :: string
  sp_voice :: string
  sp_emotion :: string
  sp_speed :: string
  sp_format :: string

text \<open>\<open>str.strip()\<close> and \<open>str.lstrip()\<close>: the white space among the code points below 256.\<close>

definition is_space :: "char \<Rightarrow> bool" where
  "is_space c \<longleftrightarrow>
     c \<in> set [CHR 0x09, CHR 0x0A, CHR 0x0B, CHR 0x0C, CHR 0x0D, CHR 0x1C, CHR 0x1D, CHR 0x1E,
              CHR 0x1F, CHR 0x20, CHR 0x85, CHR 0xA0]"

definition lstrip :: "string \<Rightarrow> string" where
  "lstrip s = dropWhile is_space s"

definition strip :: "string \<Rightarrow> string" where
  "strip s = rev (dropWhile is_space (rev (dropWhile is_space s)))"

text \<open>A value between apostrophes, as the f-strings write \<open>'{x}'\<close>.\<close>

definition quoted :: "string \<Rightarrow> string" where
  "quoted s = CHR 0x27 # s @ [CHR 0x27]"

text \<open>\<open>sep.join(xs)\<close>.\<close>

fun join :: "string \<Rightarrow> string list \<Rightarrow> string" where
  "join sep [] = []"
| "join sep [x] = x"
| "join sep (x # y # ys) = x @ sep @ join sep (y # ys)"

text \<open>
  \<open>_validate_parameters\<close>. The float bounds 0.1 and 3.0 are compared as the rationals
  1/10 and 3: no double lies between 1/10 and the double nearest to it.
\<close>

definition validate_parameters :: "environment \<Rightarrow> tts_parameters \<Rightarrow> exn + synthesis_parameters" where
  "validate_parameters env tool_parameters =
     (let txt = strip (case p_text tool_parameters of None \<Rightarrow> [] | Some t \<Rightarrow> t);
          errors1 = (if txt = [] then [''Text content is required'']
                     else if length txt > 5000 then [''Text is too long (maximum 5000 characters)'']
                     else []);
          voice = (case p_voice tool_parameters of None \<Rightarrow> ''marina'' | Some v \<Rightarrow> v);
          errors2 = errors1 @ (if voice \<notin> set VOICE_DESCRIPTIONS then [''Invalid voice: '' @ voice] else []);
          emotion = (case p_emotion tool_parameters of None \<Rightarrow> ''neutral'' | Some e \<Rightarrow> e);
          errors3 = errors2 @ (if emotion \<notin> set [''neutral'', ''good'', ''evil'', ''friendly'', ''whisper'']
                               then [''Invalid emotion: '' @ emotion] else []);
          speed = (case p_speed tool_parameters of None \<Rightarrow> SpeedNumber 1 | Some s \<Rightarrow> s);
          errors4 = errors3 @ (case speed of
                                 SpeedInvalid \<Rightarrow> [''Speed must be a valid number'']
                               | SpeedNumber r \<Rightarrow>
                                   (if \<not> (1 / 10 \<le> r \<and> r \<le> 3) then [''Speed must be between 0.1 and 3.0'']
                                    else []));
          format0 = (case p_format tool_parameters of None \<Rightarrow> ''mp3'' | Some f \<Rightarrow> f);
          format_type = (if format0 = ''opus'' then ''oggopus'' else format0);
          errors5 = errors4 @ (if format_type \<notin> set [''mp3'', ''oggopus'']
                               then [''Invalid format: '' @ format_type] else [])
      in
      if errors5 \<noteq> [] then Inl (ValueError (join ''; '' errors5))
      else
        (let allowed = (case map_of VOICE_ALLOWED_EMOTIONS voice of None \<Rightarrow> [''neutral''] | Some a \<Rightarrow> a) in
         if emotion \<notin> set allowed then
           Inl (ValueError (join ''; ''
                  [''Emotion '' @ quoted emotion @ '' is not supported by voice '' @ quoted voice
                   @ ''. Allowed: '' @ join '', '' (sort allowed)]))
         else
           Inr \<lparr>sp_text = txt, sp_voice = voice, sp_emotion = emotion,
                sp_speed = (case speed of SpeedNumber r \<Rightarrow> str_float env r | SpeedInvalid \<Rightarrow> []),
                sp_format = format_type\<rparr>))"

text \<open>\<open>a or b\<close> and \<open>d.get(k)\<close> on decoded JSON.\<close>

definition json_or :: "json \<Rightarrow> json \<Rightarrow> json" where
  "json_or a b = (if truthy_json a then a else b)"

definition jget :: "(string \<times> json) list \<Rightarrow> string \<Rightarrow> json" where
  "jget kvs k = (case map_of kvs k of None \<Rightarrow> JNull | Some v \<Rightarrow> v)"

text \<open>
  Lines 152 to 179: what is appended to \<open>"API error: <status>"\<close>. A body that is no JSON,
  or JSON that is no object, ends in the handler, which appends the first 200
  characters of the raw body.
\<close>

definition tts_error_detail :: "environment \<Rightarrow> http_response \<Rightarrow> string" where
  "tts_error_detail env response =
     (let body = '' - '' @ take 200 (text_body response) in
      case json_body response of
        Inl e \<Rightarrow> body
      | Inr (JObj error_data) \<Rightarrow>
          (let nested = jget error_data ''error'';
               code = (case nested of
                         JObj n \<Rightarrow> json_or (jget n ''code'') (jget n ''error_code'')
                       | other \<Rightarrow> json_or (jget error_data ''error_code'') (jget error_data ''code''));
               msg = (case nested of
                        JObj n \<Rightarrow> json_or (jget n ''message'') (jget n ''error_message'')
                      | other \<Rightarrow> json_or (jget error_data ''message'') (jget error_data ''error_message''));
               msg1 = (if \<not> truthy_json msg then
                         (case jget error_data ''details'' of
                            JArr xs \<Rightarrow> JStr (take 200 (py_repr env (JArr xs)))
                          | JObj d \<Rightarrow> JStr (take 200 (py_repr env (JObj d)))
                          | other \<Rightarrow> msg)
                       else msg)
           in
           (if truthy_json code then '' ['' @ format_json env code @ '']'' else [])
           @ (if truthy_json msg1 then '' - '' @ format_json env msg1 else []))
      | Inr other \<Rightarrow> body)"

text \<open>The last handler of \<open>_invoke\<close>, lines 242 to 244: log, raise again.\<close>

definition tts_failure :: "event list \<Rightarrow> exn \<Rightarrow> outcome" where
  "tts_failure evs e = (evs @ [Log ERROR (''TTS error: '' @ str_exn e)], [], Some e)"

text \<open>Lines 126 to 146: the request to the synthesis endpoint.\<close>

definition tts_request :: "string \<Rightarrow> synthesis_parameters \<Rightarrow> post_request" where
  "tts_request key params =
     (let data = [(if startswith (lstrip (sp_text params)) ''<speak'' then ''ssml'' else ''text'',
                   sp_text params),
                  (''voice'', sp_voice params),
                  (''speed'', sp_speed params),
                  (''format'', sp_format params),
                  (''lang'', ''ru-RU'')]
                 @ (if sp_emotion params \<noteq> ''neutral'' then [(''emotion'', sp_emotion params)] else [])
      in
      \<lparr>post_url = ''https://tts.api.cloud.yandex.net/speech/v1/tts:synthesize'',
       post_headers = [(''Authorization'', ''Api-Key '' @ key)],
       post_params = [],
       post_form = data,
       post_body = [],
       post_timeout = 30\<rparr>)"

text \<open>
  \<open>TextToSpeechTool._invoke\<close>. (\<open>result_text\<close>, lines 200 to 209, is computed and never
  used.)
\<close>

definition invoke_tts :: "environment \<Rightarrow> tts_parameters \<Rightarrow> outcome" where
  "invoke_tts env tool_parameters =
     (if \<not> truthy_str (api_key env) then tts_failure [] (Exception ''API key is required'')
      else
        case validate_parameters env tool_parameters of
          Inl e \<Rightarrow> tts_failure [] (Exception (''Parameter error: '' @ str_exn e))
        | Inr params \<Rightarrow>
            (let key = (case api_key env of Some k \<Rightarrow> k | None \<Rightarrow> []);
                 evs1 = [Log INFO (''TTS synthesis - text: '' @ quoted (take 50 (sp_text params) @ ''...'')
                                   @ '', voice: ''
                                   @ sp_voice params @ '', emotion: '' @ sp_emotion params
                                   @ '', speed: '' @ sp_speed params @ '', format: '' @ sp_format params)];
                 request = tts_request key params;
                 evs2 = evs1 @ [HttpPost request]
             in
             case http_post env request of
               Inl (Timeout m) \<Rightarrow>
                 (evs2 @ [Log ERROR ''TTS request timeout''], [],
                  Some (Exception ''Request timeout. Please try again with shorter text.''))
             | Inl (RequestException m) \<Rightarrow>
                 (evs2 @ [Log ERROR (''TTS request error: '' @ m)], [],
                  Some (Exception (''Network error: '' @ m)))
             | Inl e \<Rightarrow> tts_failure evs2 e
             | Inr response \<Rightarrow>
                 (let evs3 = evs2 @ [Log INFO (''API response status: '' @ str_nat (status_code response))] in
                  if status_code response \<noteq> 200 then
                    (let error_msg = ''API error: '' @ str_nat (status_code response)
                                     @ tts_error_detail env response
                                     @ '' | voice='' @ sp_voice params @ '', emotion='' @ sp_emotion params
                                     @ '', speed='' @ sp_speed params @ '', format='' @ sp_format params
                     in tts_failure (evs3 @ [Log ERROR error_msg]) (Exception error_msg))
                  else
                    (let audio_content = content response in
                     if audio_content = [] then
                       tts_failure evs3 (Exception ''Empty response from TTS service'')
                     else
                       (evs3 @ [Log INFO (''TTS synthesis successful, audio size: ''
                                          @ str_nat (length audio_content) @ '' bytes'')],
                        [JsonMessage
                           [(''voice'', JStr (sp_voice params)),
                            (''emotion'', JStr (sp_emotion params)),
                            (''speed'', JStr (sp_speed params)),
                            (''format'', JStr (if sp_format params = ''oggopus'' then ''opus''
                                               else sp_format params)),
                            (''text_length'', JNum (of_nat (length (sp_text params))))],
                         BlobMessage audio_content
                           [(''mime_type'', (case map_of FORMAT_MIME (sp_format params) of
                                               None \<Rightarrow> ''application/octet-stream'' | Some m \<Rightarrow> m)),
                            (''filename'', ''speech.'' @ (if sp_format params = ''oggopus'' then ''ogg''
                                                          else sp_format params))]],
                        None)))))"

section \<open>Reading the events, and surroundings for the examples\<close>

text \<open>The names of the helper methods called, in order.\<close>

fun called :: "event list \<Rightarrow> string list" where
  "called [] = []"
| "called (Call name # evs) = name # called evs"
| "called (ev # evs) = called evs"

text \<open>The requests posted, in order.\<close>

fun posted :: "event list \<Rightarrow> post_request list" where
  "posted [] = []"
| "posted (HttpPost request # evs) = request # posted evs"
| "posted (ev # evs) = posted evs"

text \<open>
  A host with nothing around the tool: no credentials, no pydub, no network, no file and no
  fetch method; bytes are never a WAV container. The examples override what they need.
\<close>

definition offline :: environment where
  "offline =
     \<lparr>wave_open = (\<lambda>b. Inl (LibraryError ''file does not start with RIFF id'')),
      pydub_installed = False,
      ffmpeg_found = False,
      pydub_to_wav = (\<lambda>b. Inl (LibraryError ''decoding failed'')),
      http_get = (\<lambda>u t. Inl (RequestException ''connection refused'')),
      http_post = (\<lambda>r. Inl (RequestException ''connection refused'')),
      open_read = (\<lambda>p. Inl (LibraryError ''No such file or directory'')),
      api_key = None,
      self_get_file_content = None,
      runtime_get_file_content = None,
      runtime_get_file = None,
      session_get_file_content = None,
      session_get_file = None,
      session_files_get = None,
      session_file_get = None,
      py_repr = (\<lambda>j. ''None''),
      str_float = (\<lambda>r. ''1.0'')\<rparr>"

text \<open>
  A host whose service hears nothing: every upload is taken as the data chunk of a mono
  16 kHz 16-bit WAV of two frames, and every request is answered by HTTP 200 with the JSON
  body \<open>{result: ""}\<close>.
\<close>

definition no_speech_response :: http_response where
  "no_speech_response =
     \<lparr>status_code = 200, content = [], text_body = [],
      json_body = Inr (JObj [(''result'', JStr [])])\<rparr>"

definition no_speech_host :: environment where
  "no_speech_host =
     offline\<lparr>wave_open := (\<lambda>b. Inr \<lparr>framerate = 16000, bitspersample = 16, nchannels = 1,
                                     nframes = 2, chunk = b\<rparr>),
             api_key := Some ''secret'',
             http_post := (\<lambda>r. Inr no_speech_response)\<rparr>"

text \<open>
  Two containers that \<open>wave\<close> opens: one whose header declares 12 bits per sample, and
  one whose header declares 50 frames of 16-bit mono audio while the data chunk holds 8
  bytes.
\<close>

definition twelve_bit_reader :: wav_reader where
  "twelve_bit_reader =
     \<lparr>framerate = 16000, bitspersample = 12, nchannels = 1, nframes = 2,
      chunk = [0xE8, 0x03, 0xE8, 0x03]\<rparr>"

definition truncated_reader :: wav_reader where
  "truncated_reader =
     \<lparr>framerate = 16000, bitspersample = 16, nchannels = 1, nframes = 50,
      chunk = [0, 0, 0, 0, 0, 0, 0, 0]\<rparr>"

section \<open>Properties of the WAV conversion\<close>

subsection \<open>Sample codec and the library functions\<close>

lemma length_pack16: "length (pack16 vs) = 2 * length vs"
  by (induction vs) (simp_all add: pack16_def bytes16_def)

lemma length_samples16: "length (samples16 bs) = length bs div 2"
  by (induction bs rule: samples16.induct) simp_all

lemma length_tomono_samples: "length (tomono_samples lf rf vs) = length vs div 2"
  by (induction lf rf vs rule: tomono_samples.induct) simp_all

lemma s16_range: "- 32768 \<le> s16 lo hi \<and> s16 lo hi \<le> 32767"
proof -
  define x y where "x = uint lo" and "y = uint hi"
  have "0 \<le> x" "x < 256" "0 \<le> y" "y < 256"
    using uint_bounded [of lo] uint_bounded [of hi] by (simp_all add: x_def y_def)
  then show ?thesis
    unfolding s16_def Let_def x_def [symmetric] y_def [symmetric] by auto
qed

lemma samples16_range: "v \<in> set (samples16 bs) \<Longrightarrow> - 32768 \<le> v \<and> v \<le> 32767"
  by (induction bs rule: samples16.induct) (use s16_range in auto)

lemma fbound_range: "- 32768 \<le> fbound x \<and> fbound x \<le> 32767"
  unfolding fbound_def by (auto simp: le_floor_iff floor_le_iff)

lemma fbound_of_int: "fbound (of_int v) = max (- 32768) (min 32767 v)"
  unfolding fbound_def by (auto simp: max_def min_def)

lemma s16_bytes16:
  assumes "- 32768 \<le> v" "v \<le> 32767"
  shows "s16 (word_of_int v) (word_of_int (v div 256)) = v"
proof -
  have a: "uint (word_of_int v :: byte) = v mod 256"
    by (simp add: uint_word_of_int)
  have b: "uint (word_of_int (v div 256) :: byte) = (v div 256) mod 256"
    by (simp add: uint_word_of_int)
  have c: "v mod 256 + 256 * (v div 256 mod 256) = v mod 65536"
    using zmod_zmult2_eq [of 256 v 256] by simp
  show ?thesis
  proof (cases "0 \<le> v")
    case True
    then have "v mod 65536 = v" using assms by simp
    then show ?thesis using assms True unfolding s16_def a b c Let_def by simp
  next
    case False
    then have "v mod 65536 = v + 65536"
      using assms mod_add_self2 [of v 65536] mod_pos_pos_trivial [of "v + 65536" 65536] by simp
    then show ?thesis using assms False unfolding s16_def a b c Let_def by simp
  qed
qed

lemma samples16_pack16:
  "\<forall>v \<in> set vs. - 32768 \<le> v \<and> v \<le> 32767 \<Longrightarrow> samples16 (pack16 vs) = vs"
  by (induction vs) (simp_all add: pack16_def bytes16_def s16_bytes16)

lemma sqrt_search_spec:
  "k * k \<le> n \<Longrightarrow> sqrt_search k n * sqrt_search k n \<le> n \<and> n < (sqrt_search k n + 1) * (sqrt_search k n + 1)"
proof (induction k n rule: sqrt_search.induct)
  case (1 k n)
  show ?case
  proof (cases "(k + 1) * (k + 1) \<le> n")
    case True
    then show ?thesis using "1.IH" by (subst (1 2 3 4) sqrt_search.simps) simp
  next
    case False
    then show ?thesis using "1.prems" by (subst (1 2 3 4) sqrt_search.simps) simp
  qed
qed

lemma isqrt_spec: "isqrt n * isqrt n \<le> n \<and> n < (isqrt n + 1) * (isqrt n + 1)"
  unfolding isqrt_def by (rule sqrt_search_spec) simp

lemma isqrt_less_iff: "isqrt n < t \<longleftrightarrow> n < t * t"
proof
  assume "isqrt n < t"
  then have h: "isqrt n + 1 \<le> t" by linarith
  have "(isqrt n + 1) * (isqrt n + 1) \<le> t * t" by (rule mult_le_mono [OF h h])
  then show "n < t * t" using isqrt_spec [of n] by linarith
next
  assume a: "n < t * t"
  show "isqrt n < t"
  proof (rule ccontr)
    assume "\<not> isqrt n < t"
    then have h: "t \<le> isqrt n" by linarith
    have "t * t \<le> isqrt n * isqrt n" by (rule mult_le_mono [OF h h])
    then show False using isqrt_spec [of n] a by linarith
  qed
qed

lemma isqrt_unique: "k * k \<le> n \<Longrightarrow> n < (k + 1) * (k + 1) \<Longrightarrow> isqrt n = k"
proof -
  assume a: "k * k \<le> n" and b: "n < (k + 1) * (k + 1)"
  have "isqrt n < k + 1" using b by (simp only: isqrt_less_iff)
  moreover have "\<not> isqrt n < k" using a by (simp add: isqrt_less_iff)
  ultimately show ?thesis by linarith
qed


lemma audioop_mul_samples:
  assumes "length raw mod 2 = 0"
  shows "audioop_mul raw g = Inr (pack16 (map (\<lambda>v. fbound (of_int v * g)) (samples16 raw)))"
    and "\<exists>out. audioop_mul raw g = Inr out \<and> length out = length raw
           \<and> samples16 out = map (\<lambda>v. fbound (of_int v * g)) (samples16 raw)"
proof -
  show a: "audioop_mul raw g = Inr (pack16 (map (\<lambda>v. fbound (of_int v * g)) (samples16 raw)))"
    using assms by (simp add: audioop_mul_def)
  have "\<forall>v \<in> set (map (\<lambda>v. fbound (of_int v * g)) (samples16 raw)). - 32768 \<le> v \<and> v \<le> 32767"
    using fbound_range by auto
  then have "samples16 (pack16 (map (\<lambda>v. fbound (of_int v * g)) (samples16 raw)))
      = map (\<lambda>v. fbound (of_int v * g)) (samples16 raw)"
    by (rule samples16_pack16)
  moreover have "length (pack16 (map (\<lambda>v. fbound (of_int v * g)) (samples16 raw))) = length raw"
    using assms by (simp add: length_pack16 length_samples16) presburger
  ultimately show "\<exists>out. audioop_mul raw g = Inr out \<and> length out = length raw
           \<and> samples16 out = map (\<lambda>v. fbound (of_int v * g)) (samples16 raw)"
    using a by simp
qed

lemma fbound_times_2: "fbound (of_int v * 2) = max (- 32768) (min 32767 (2 * v))"
proof -
  have "of_int v * (2::rat) = of_int (2 * v)" by simp
  then show ?thesis by (simp only: fbound_of_int)
qed

lemma fbound_times_4: "fbound (of_int v * 4) = max (- 32768) (min 32767 (4 * v))"
proof -
  have "of_int v * (4::rat) = of_int (4 * v)" by simp
  then show ?thesis by (simp only: fbound_of_int)
qed

lemma audioop_rms_even: "length raw mod 2 = 0 \<Longrightarrow> \<exists>rms. audioop_rms raw = Inr rms"
  by (simp add: audioop_rms_def)

lemma length_gain_normalization: "length (snd (gain_normalization raw)) = length raw"
proof (cases "length raw mod 2 = 0")
  case True
  from audioop_rms_even [OF True] obtain rms where r: "audioop_rms raw = Inr rms" ..
  from audioop_mul_samples(2) [OF True, of "select_gain rms"]
  obtain out where o: "audioop_mul raw (select_gain rms) = Inr out" "length out = length raw"
    by auto
  show ?thesis by (simp add: gain_normalization_def r o Let_def)
next
  case False
  then show ?thesis by (simp add: gain_normalization_def audioop_rms_def)
qed



lemma rms_1000: "audioop_rms [0xE8, 0x03, 0xE8, 0x03] = Inr 1000"
proof -
  have a: "sum_squares (samples16 [0xE8, 0x03, 0xE8, 0x03]) = 2000000"
    by (simp add: sum_squares_def s16_def)
  have b: "length [0xE8, 0x03, 0xE8, 0x03 :: byte] = 4" by simp
  have c: "isqrt 1000000 = 1000" by (rule isqrt_unique) simp_all
  show ?thesis unfolding audioop_rms_def a b using c by simp
qed




lemma sampwidth_2_iff: "sampwidth r = 2 \<longleftrightarrow> 9 \<le> bitspersample r \<and> bitspersample r \<le> 16"
  unfolding sampwidth_def by presburger

text \<open>
  Claim C4, as amended. When the container parses and its header declares fewer than 9 or
  more than 16 bits per sample, so that its sample width is not 2 bytes, the conversion
  raises \<open>ValueError\<close>; the message names the width, in bits, as the width in bytes times 8;
  the only event is the error log, so \<open>readframes\<close> was never called; and the result carries
  no PCM bytes.
\<close>

theorem unsupported_width_fails:
  assumes "wopen wav_data = Inr r"
    and "bitspersample r < 9 \<or> 16 < bitspersample r"
  shows "convert_wav_to_pcm wopen wav_data =
    ([Log ERROR (''WAV to PCM conversion failed: Unsupported WAV sample width: ''
                 @ str_nat (sampwidth r * 8) @ '' bits. Only 16-bit PCM supported'')],
     Inl (ValueError (''Failed to process WAV file: Unsupported WAV sample width: ''
                 @ str_nat (sampwidth r * 8) @ '' bits. Only 16-bit PCM supported'')))"
proof -
  have "sampwidth r \<noteq> 2" using assms(2) by (simp add: sampwidth_2_iff) linarith
  then show ?thesis
    using assms(1) by (simp add: convert_wav_to_pcm_def wav_failure_def Let_def)
qed

text \<open>An 8-bit WAV of two frames.\<close>

theorem unsupported_width_fails_witness:
  "convert_wav_to_pcm
     (\<lambda>b. Inr \<lparr>framerate = 8000, bitspersample = 8, nchannels = 1, nframes = 2, chunk = [128, 130]\<rparr>) [] =
    ([Log ERROR ''WAV to PCM conversion failed: Unsupported WAV sample width: 8 bits. Only 16-bit PCM supported''],
     Inl (ValueError ''Failed to process WAV file: Unsupported WAV sample width: 8 bits. Only 16-bit PCM supported''))"
  using unsupported_width_fails [of "\<lambda>b. Inr \<lparr>framerate = 8000, bitspersample = 8, nchannels = 1, nframes = 2, chunk = [128, 130]\<rparr>" "[]"
      "\<lparr>framerate = 8000, bitspersample = 8, nchannels = 1, nframes = 2, chunk = [128, 130]\<rparr>"]
  by (simp add: sampwidth_def str_nat.simps digit_char_def)

text \<open>
  Claim C4 as stated fails on a 12-bit WAV: its sample width is not 16 bits, yet
  \<open>getsampwidth()\<close> is 2, the check at line 260 lets it through, the frames are read and
  PCM bytes are returned.
\<close>

theorem twelve_bit_counterexample:
  "bitspersample twelve_bit_reader = 12
   \<and> sampwidth twelve_bit_reader = 2
   \<and> convert_wav_to_pcm (\<lambda>b. Inr twelve_bit_reader) [] =
       ([ReadFrames 2], Inr ([0xE8, 0x03, 0xE8, 0x03], 16000))"
  by (simp add: twelve_bit_reader_def sampwidth_def convert_wav_to_pcm_def readframes_def
      gain_normalization_def rms_1000 select_gain_def Let_def)


text \<open>
  Claim C5. On a fragment of whole 16-bit samples, multiplying by 2.0 or by 4.0 gives, sample
  by sample, the product clipped to \<open>[-32768, 32767]\<close>; and the samples that
  the normalization step returns are the input samples times the selected gain (1, 2 or 4),
  clipped to that range.
\<close>

theorem gain_saturates:
  assumes "length raw mod 2 = 0"
  shows "(\<exists>out. audioop_mul raw 2 = Inr out
            \<and> samples16 out = map (\<lambda>v. max (- 32768) (min 32767 (2 * v))) (samples16 raw))
     \<and> (\<exists>out. audioop_mul raw 4 = Inr out
            \<and> samples16 out = map (\<lambda>v. max (- 32768) (min 32767 (4 * v))) (samples16 raw))
     \<and> (\<exists>rms k. audioop_rms raw = Inr rms \<and> select_gain rms = of_int k \<and> (k = 1 \<or> k = 2 \<or> k = 4)
            \<and> samples16 (snd (gain_normalization raw))
                = map (\<lambda>v. max (- 32768) (min 32767 (k * v))) (samples16 raw))"
proof -
  from audioop_mul_samples(2) [OF assms, of 2]
  have two: "\<exists>out. audioop_mul raw 2 = Inr out
            \<and> samples16 out = map (\<lambda>v. max (- 32768) (min 32767 (2 * v))) (samples16 raw)"
    by (auto simp: fbound_times_2)
  from audioop_mul_samples(2) [OF assms, of 4]
  have four: "\<exists>out. audioop_mul raw 4 = Inr out
            \<and> samples16 out = map (\<lambda>v. max (- 32768) (min 32767 (4 * v))) (samples16 raw)"
    by (auto simp: fbound_times_4)
  from audioop_rms_even [OF assms] obtain rms where r: "audioop_rms raw = Inr rms" ..
  have one: "samples16 raw = map (\<lambda>v. max (- 32768) (min 32767 (1 * v))) (samples16 raw)"
    using samples16_range [of _ raw] by (simp add: map_idI)
  have "select_gain rms = 4 \<or> select_gain rms = 2 \<or> select_gain rms = 1"
    by (simp add: select_gain_def)
  then consider (g4) "select_gain rms = 4" | (g2) "select_gain rms = 2" | (g1) "select_gain rms = 1"
    by blast
  then have "\<exists>k. select_gain rms = of_int k \<and> (k = 1 \<or> k = 2 \<or> k = 4)
            \<and> samples16 (snd (gain_normalization raw))
                = map (\<lambda>v. max (- 32768) (min 32767 (k * v))) (samples16 raw)"
  proof cases
    case g4
    from four obtain out where o: "audioop_mul raw 4 = Inr out"
      "samples16 out = map (\<lambda>v. max (- 32768) (min 32767 (4 * v))) (samples16 raw)" by blast
    have "samples16 (snd (gain_normalization raw))
        = map (\<lambda>v. max (- 32768) (min 32767 (4 * v))) (samples16 raw)"
      by (simp add: gain_normalization_def r g4 o)
    then show ?thesis using g4 by (intro exI [of _ 4]) simp
  next
    case g2
    from two obtain out where o: "audioop_mul raw 2 = Inr out"
      "samples16 out = map (\<lambda>v. max (- 32768) (min 32767 (2 * v))) (samples16 raw)" by blast
    have "samples16 (snd (gain_normalization raw))
        = map (\<lambda>v. max (- 32768) (min 32767 (2 * v))) (samples16 raw)"
      by (simp add: gain_normalization_def r g2 o)
    then show ?thesis using g2 by (intro exI [of _ 2]) simp
  next
    case g1
    have "snd (gain_normalization raw) = raw"
      by (simp add: gain_normalization_def r g1)
    then have "samples16 (snd (gain_normalization raw))
        = map (\<lambda>v. max (- 32768) (min 32767 (1 * v))) (samples16 raw)"
      using one by simp
    then show ?thesis using g1 by (intro exI [of _ 1]) simp
  qed
  then show ?thesis using two four r by blast
qed

text \<open>The samples 32767, -32768 and 10000 times 4.0 saturate at both ends.\<close>

theorem gain_saturates_witness:
  "length [0xFF, 0x7F, 0x00, 0x80, 0x10, 0x27 :: byte] mod 2 = 0
   \<and> samples16 [0xFF, 0x7F, 0x00, 0x80, 0x10, 0x27] = [32767, - 32768, 10000]
   \<and> (\<exists>out. audioop_mul [0xFF, 0x7F, 0x00, 0x80, 0x10, 0x27] 4 = Inr out
          \<and> samples16 out = [32767, - 32768, 32767])"
proof -
  have s: "samples16 [0xFF, 0x7F, 0x00, 0x80, 0x10, 0x27] = [32767, - 32768, 10000]"
    by (simp add: s16_def)
  show ?thesis
    using gain_saturates [of "[0xFF, 0x7F, 0x00, 0x80, 0x10, 0x27]"] by (simp add: s16_def)
qed

lemma length_readframes:
  "n * (nchannels r * sampwidth r) \<le> length (chunk r) \<Longrightarrow>
     length (readframes r n) = n * (nchannels r * sampwidth r)"
  by (simp add: readframes_def)

lemma length_tomono:
  assumes "length raw = 4 * n"
  shows "\<exists>m. audioop_tomono raw lf rf = Inr m \<and> length m = 2 * n"
proof -
  have a: "length raw mod 2 = 0" "(length raw div 2) mod 2 = 0" "length raw div 2 div 2 = n"
    using assms by simp_all
  show ?thesis
    by (simp add: audioop_tomono_def a length_pack16 length_tomono_samples length_samples16)
qed

lemma convert_wav_ok:
  assumes "wopen wav_data = Inr r"
    and "sampwidth r = 2"
    and "nchannels r = 1 \<or> nchannels r = 2"
    and "nframes r * (nchannels r * sampwidth r) \<le> length (chunk r)"
  shows "\<exists>evs pcm. convert_wav_to_pcm wopen wav_data = (evs, Inr (pcm, framerate r))
           \<and> length pcm = 2 * nframes r"
proof -
  have len: "length (readframes r (nframes r)) = nframes r * (nchannels r * 2)"
    using length_readframes [OF assms(4)] assms(2) by simp
  note gl = length_gain_normalization
  from assms(3) show ?thesis
  proof
    assume c: "nchannels r = 1"
    then show ?thesis
      using assms(1,2) len gl [of "readframes r (nframes r)"]
      by (simp add: convert_wav_to_pcm_def Let_def split_def)
  next
    assume c: "nchannels r = 2"
    then have "length (readframes r (nframes r)) = 4 * nframes r" using len by simp
    from length_tomono [OF this, of "1 / 2" "1 / 2"]
    obtain m where m: "audioop_tomono (readframes r (nframes r)) (1 / 2) (1 / 2) = Inr m"
      "length m = 2 * nframes r" by blast
    show ?thesis
      using assms(1,2) c m gl [of m]
      by (simp add: convert_wav_to_pcm_def Let_def split_def)
  qed
qed


text \<open>
  Claim C6, as amended. For a 16-bit WAV with one or two channels whose data chunk holds the
  frames that its header declares, the conversion succeeds, returns \<open>2 * nframes\<close> bytes of
  PCM, and returns the frame rate of the container.
\<close>

theorem pcm_length_and_rate:
  assumes "wopen wav_data = Inr r"
    and "sampwidth r = 2"
    and "nchannels r = 1 \<or> nchannels r = 2"
    and "nframes r * (nchannels r * sampwidth r) \<le> length (chunk r)"
  shows "\<exists>evs pcm. convert_wav_to_pcm wopen wav_data = (evs, Inr (pcm, framerate r))
           \<and> length pcm = 2 * nframes r"
  using assms by (rule convert_wav_ok)

text \<open>A stereo WAV of two frames at 44100 Hz gives four bytes of PCM at 44100 Hz.\<close>

theorem pcm_length_and_rate_witness:
  "(\<exists>evs pcm. convert_wav_to_pcm
       (\<lambda>b. Inr \<lparr>framerate = 44100, bitspersample = 16, nchannels = 2, nframes = 2,
                  chunk = [0xE8, 0x03, 0xE8, 0x03, 0x10, 0x27, 0xF0, 0xD8]\<rparr>) [] = (evs, Inr (pcm, 44100))
     \<and> length pcm = 4)"
  using pcm_length_and_rate [of
      "\<lambda>b. Inr \<lparr>framerate = 44100, bitspersample = 16, nchannels = 2, nframes = 2,
                  chunk = [0xE8, 0x03, 0xE8, 0x03, 0x10, 0x27, 0xF0, 0xD8]\<rparr>" "[]"
      "\<lparr>framerate = 44100, bitspersample = 16, nchannels = 2, nframes = 2,
                  chunk = [0xE8, 0x03, 0xE8, 0x03, 0x10, 0x27, 0xF0, 0xD8]\<rparr>"]
  by (simp add: sampwidth_def)

lemma rms_silence: "audioop_rms [0, 0, 0, 0, 0, 0, 0, 0] = Inr 0"
proof -
  have a: "sum_squares (samples16 [0, 0, 0, 0, 0, 0, 0, 0]) = 0"
    by (simp add: sum_squares_def s16_def)
  have b: "length [0, 0, 0, 0, 0, 0, 0, 0 :: byte] = 8" by simp
  have c: "isqrt 0 = 0" by (rule isqrt_unique) simp_all
  show ?thesis unfolding audioop_rms_def a b using c by simp
qed

text \<open>
  Claim C6 as stated fails on a truncated container: it parses, it is mono and 16-bit, its
  header declares 50 frames, and the conversion returns the 8 bytes that the data chunk
  holds, not 100.
\<close>

theorem truncated_wav_counterexample:
  "sampwidth truncated_reader = 2
   \<and> nchannels truncated_reader = 1
   \<and> nframes truncated_reader = 50
   \<and> convert_wav_to_pcm (\<lambda>b. Inr truncated_reader) [] =
       ([ReadFrames 50], Inr ([0, 0, 0, 0, 0, 0, 0, 0], 16000))
   \<and> length [0, 0, 0, 0, 0, 0, 0, 0 :: byte] \<noteq> 2 * nframes truncated_reader"
  by (simp add: truncated_reader_def sampwidth_def convert_wav_to_pcm_def readframes_def
      gain_normalization_def rms_silence select_gain_def Let_def)

section \<open>Properties of the acquisition\<close>

text \<open>
  Claim C9. Acquiring a reference that is already \<open>bytes\<close> logs two lines and returns
  exactly those bytes, in every environment.
\<close>

theorem raw_bytes_identity:
  "get_audio_data_from_file env (RawBytes b) =
     ([Log INFO ''Processing audio file of type: {type(audio_file)}'',
       Log INFO ''Processing raw bytes data''],
      Inr (Bytes b))"
  by (simp add: get_audio_data_from_file_def no_attributes_def)

text \<open>
  The four bytes \<open>RIFF\<close> come back as they are.
\<close>

theorem raw_bytes_identity_witness:
  "snd (get_audio_data_from_file offline (RawBytes [0x52, 0x49, 0x46, 0x46])) = Inr (Bytes [0x52, 0x49, 0x46, 0x46])"
  using raw_bytes_identity [of offline "[0x52, 0x49, 0x46, 0x46]"] by simp

lemma absolute_url_nonempty: "absolute_url v = Some u \<Longrightarrow> v = PyStr u \<and> u \<noteq> []"
  by (cases v) (auto simp: startswith_def lower_def split: if_splits)

text \<open>
  Claim C7. For a metadata mapping with no usable \<open>related_id\<close> or \<open>id\<close> and with an
  absolute HTTP(S) \<open>remote_url\<close>, acquisition issues one GET of that URL with a timeout of 30
  seconds. When the GET returns a response whose status \<open>raise_for_status\<close> accepts, the
  body of the response is the result. When the GET raises, or the status is an error, the
  failure is logged at debug level and acquisition ends in the final \<open>ValueError\<close> about
  the metadata, logged by the handler of the function.
\<close>

theorem metadata_remote_url:
  assumes "\<not> truthy (dict_get d ''related_id'')"
    and "\<not> truthy (dict_get d ''id'')"
    and "dict_get d ''remote_url'' = PyStr u"
    and "startswith (lower u) ''http://'' \<or> startswith (lower u) ''https://''"
  shows "get_audio_data_from_file env (Metadata d) =
     (let evs = [Log INFO ''Processing audio file of type: {type(audio_file)}'',
                 Log INFO ''Processing file metadata dict: {audio_file}'',
                 Log INFO (''Fetching file via absolute URL: '' @ u),
                 HttpGet u 30];
          failed = (\<lambda>url_err.
             (evs @ [Log DEBUG (''Absolute URL fetch failed: '' @ str_exn url_err),
                     Log ERROR (''Error extracting audio data: Could not retrieve file bytes from provided ''
                                @ ''metadata (no SDK method worked, and no absolute URL available).'')],
              Inl (ValueError (''Could not retrieve file bytes from provided metadata (no SDK method worked, ''
                               @ ''and no absolute URL available).''))))
      in
      case http_get env u 30 of
        Inl e \<Rightarrow> failed e
      | Inr resp \<Rightarrow>
          (case raise_for_status resp of
             Some e \<Rightarrow> failed e
           | None \<Rightarrow> (evs, Inr (Bytes (content resp)))))"
proof -
  have abs: "absolute_url (PyStr u) = Some u" using assms(4) by simp
  then have "u \<noteq> []" using absolute_url_nonempty by blast
  then have url: "py_or (dict_get d ''remote_url'') (dict_get d ''url'') = PyStr u"
    using assms(3) by (simp add: py_or_def)
  have rid: "\<not> truthy (py_or (dict_get d ''related_id'') (dict_get d ''id''))"
    using assms(1,2) by (simp add: py_or_def)
  show ?thesis
    using rid assms(4)
    by (simp add: get_audio_data_from_file_def no_attributes_def metadata_url_def url abs
        fetch_url_def extract_failure_def Let_def split: sum.split option.split)
qed


text \<open>
  A mapping with only \<open>remote_url\<close>, in upper-case scheme, on a host that answers a GET with
  timeout 30 by HTTP 200 and three bytes.
\<close>

theorem metadata_remote_url_witness:
  "get_audio_data_from_file
     (offline\<lparr>http_get := (\<lambda>u t. if t = 30
        then Inr \<lparr>status_code = 200, content = [1, 2, 3], text_body = [], json_body = Inl (LibraryError [])\<rparr>
        else Inl (Timeout []))\<rparr>)
     (Metadata [(''remote_url'', PyStr ''HTTP://h/a'')]) =
   ([Log INFO ''Processing audio file of type: {type(audio_file)}'',
     Log INFO ''Processing file metadata dict: {audio_file}'',
     Log INFO ''Fetching file via absolute URL: HTTP://h/a'',
     HttpGet ''HTTP://h/a'' 30],
    Inr (Bytes [1, 2, 3]))"
proof -
  have l: "lower ''HTTP://h/a'' = ''http://h/a''"
    by (simp add: lower_def lower_char_def)
  show ?thesis
    using metadata_remote_url [of "[(''remote_url'', PyStr ''HTTP://h/a'')]" "''HTTP://h/a''"
        "offline\<lparr>http_get := (\<lambda>u t. if t = 30
        then Inr \<lparr>status_code = 200, content = [1, 2, 3], text_body = [], json_body = Inl (LibraryError [])\<rparr>
        else Inl (Timeout []))\<rparr>"]
    by (simp add: l dict_get_def startswith_def raise_for_status_def)
qed

section \<open>Properties of the normalization decision\<close>

lemma called_append: "called (xs @ ys) = called xs @ called ys"
  by (induction xs rule: called.induct) simp_all

lemma called_gain_normalization: "called (fst (gain_normalization raw)) = []"
  by (simp add: gain_normalization_def Let_def split: sum.split)

lemma called_convert_wav_to_pcm: "called (fst (convert_wav_to_pcm wopen d)) = []"
  by (simp add: convert_wav_to_pcm_def wav_failure_def Let_def split_def called_append
      called_gain_normalization split: sum.split)

lemma called_convert_audio_to_wav: "called (fst (convert_audio_to_wav env d)) = []"
  by (simp add: convert_audio_to_wav_def Let_def called_append split: sum.split exn.split)

text \<open>
  Claim C3. The normalization decision first calls \<open>_convert_wav_to_pcm\<close> on the input.
  When that succeeds its result is the result and nothing else is called. When it fails,
  \<open>_convert_audio_to_wav\<close> is called once: its failure is the result; on its success
  \<open>_convert_wav_to_pcm\<close> is called once more on the WAV bytes and its outcome, success or
  failure, is the result, with no further call. For a mono 16-bit WAV whose data chunk holds
  the declared frames the adapter is not called.
\<close>

theorem two_attempt_pipeline:
  "(\<forall>pcm. snd (convert_wav_to_pcm (wave_open env) d) = Inr pcm \<longrightarrow>
       snd (normalization_decision env d) = Inr pcm
       \<and> called (fst (normalization_decision env d)) = [''_convert_wav_to_pcm''])
   \<and> (\<forall>e1 e. snd (convert_wav_to_pcm (wave_open env) d) = Inl e1
         \<and> snd (convert_audio_to_wav env d) = Inl e \<longrightarrow>
       snd (normalization_decision env d) = Inl e
       \<and> called (fst (normalization_decision env d)) = [''_convert_wav_to_pcm'', ''_convert_audio_to_wav''])
   \<and> (\<forall>e1 wav_data. snd (convert_wav_to_pcm (wave_open env) d) = Inl e1
         \<and> snd (convert_audio_to_wav env d) = Inr wav_data \<longrightarrow>
       snd (normalization_decision env d) = snd (convert_wav_to_pcm (wave_open env) wav_data)
       \<and> called (fst (normalization_decision env d))
           = [''_convert_wav_to_pcm'', ''_convert_audio_to_wav'', ''_convert_wav_to_pcm''])
   \<and> (\<forall>r. wave_open env d = Inr r \<and> sampwidth r = 2 \<and> nchannels r = 1
         \<and> nframes r * 2 \<le> length (chunk r) \<longrightarrow>
       ''_convert_audio_to_wav'' \<notin> set (called (fst (normalization_decision env d))))"
proof -
  obtain evs1 r1 where first: "convert_wav_to_pcm (wave_open env) d = (evs1, r1)"
    by (cases "convert_wav_to_pcm (wave_open env) d")
  obtain evs3 r3 where adapter: "convert_audio_to_wav env d = (evs3, r3)"
    by (cases "convert_audio_to_wav env d")
  have c1: "called evs1 = []"
    using called_convert_wav_to_pcm [of "wave_open env" d] first by simp
  have c3: "called evs3 = []"
    using called_convert_audio_to_wav [of env d] adapter by simp
  have a: "\<forall>pcm. r1 = Inr pcm \<longrightarrow>
       snd (normalization_decision env d) = Inr pcm
       \<and> called (fst (normalization_decision env d)) = [''_convert_wav_to_pcm'']"
    by (simp add: normalization_decision_def first called_append c1)
  have b: "\<forall>e1 e. r1 = Inl e1 \<and> r3 = Inl e \<longrightarrow>
       snd (normalization_decision env d) = Inl e
       \<and> called (fst (normalization_decision env d)) = [''_convert_wav_to_pcm'', ''_convert_audio_to_wav'']"
    by (simp add: normalization_decision_def first adapter called_append c1 c3 Let_def)
  have c: "\<forall>e1 wav_data. r1 = Inl e1 \<and> r3 = Inr wav_data \<longrightarrow>
       snd (normalization_decision env d) = snd (convert_wav_to_pcm (wave_open env) wav_data)
       \<and> called (fst (normalization_decision env d))
           = [''_convert_wav_to_pcm'', ''_convert_audio_to_wav'', ''_convert_wav_to_pcm'']"
  proof (intro allI impI)
    fix e1 wav_data
    assume h: "r1 = Inl e1 \<and> r3 = Inr wav_data"
    obtain evs4 r4 where second: "convert_wav_to_pcm (wave_open env) wav_data = (evs4, r4)"
      by (cases "convert_wav_to_pcm (wave_open env) wav_data")
    have c4: "called evs4 = []"
      using called_convert_wav_to_pcm [of "wave_open env" wav_data] second by simp
    show "snd (normalization_decision env d) = snd (convert_wav_to_pcm (wave_open env) wav_data)
       \<and> called (fst (normalization_decision env d))
           = [''_convert_wav_to_pcm'', ''_convert_audio_to_wav'', ''_convert_wav_to_pcm'']"
      using h by (cases r4) (simp_all add: normalization_decision_def first adapter second
          called_append c1 c3 c4 Let_def)
  qed
  have d: "\<forall>r. wave_open env d = Inr r \<and> sampwidth r = 2 \<and> nchannels r = 1
         \<and> nframes r * 2 \<le> length (chunk r) \<longrightarrow>
       ''_convert_audio_to_wav'' \<notin> set (called (fst (normalization_decision env d)))"
  proof (intro allI impI)
    fix r
    assume h: "wave_open env d = Inr r \<and> sampwidth r = 2 \<and> nchannels r = 1
         \<and> nframes r * 2 \<le> length (chunk r)"
    then have "\<exists>evs pcm. convert_wav_to_pcm (wave_open env) d = (evs, Inr (pcm, framerate r))
           \<and> length pcm = 2 * nframes r"
      by (intro convert_wav_ok) simp_all
    then obtain pcm where "r1 = Inr (pcm, framerate r)" using first by auto
    then show "''_convert_audio_to_wav'' \<notin> set (called (fst (normalization_decision env d)))"
      using a by simp
  qed
  show ?thesis using a b c d first adapter by simp
qed

text \<open>
  On a host where no bytes parse as WAV and pydub returns one byte, the second parse fails
  and its error is the result after exactly three calls; on a host where the upload is a
  conformant WAV the adapter is not called.
\<close>

theorem two_attempt_pipeline_witness:
  "snd (normalization_decision (offline\<lparr>pydub_installed := True, pydub_to_wav := (\<lambda>b. Inr [1])\<rparr>) [0])
     = Inl (ValueError ''Failed to process WAV file: file does not start with RIFF id'')
   \<and> called (fst (normalization_decision
         (offline\<lparr>pydub_installed := True, pydub_to_wav := (\<lambda>b. Inr [1])\<rparr>) [0]))
     = [''_convert_wav_to_pcm'', ''_convert_audio_to_wav'', ''_convert_wav_to_pcm'']
   \<and> ''_convert_audio_to_wav'' \<notin> set (called (fst (normalization_decision no_speech_host [0, 0, 0, 0])))"
proof -
  have a: "snd (convert_wav_to_pcm (wave_open (offline\<lparr>pydub_installed := True, pydub_to_wav := (\<lambda>b. Inr [1])\<rparr>)) b)
      = Inl (ValueError ''Failed to process WAV file: file does not start with RIFF id'')" for b
    by (simp add: offline_def convert_wav_to_pcm_def wav_failure_def)
  have b: "snd (convert_audio_to_wav (offline\<lparr>pydub_installed := True, pydub_to_wav := (\<lambda>b. Inr [1])\<rparr>) [0])
      = Inr [1]"
    by (simp add: offline_def convert_audio_to_wav_def)
  have c: "wave_open no_speech_host [0, 0, 0, 0]
      = Inr \<lparr>framerate = 16000, bitspersample = 16, nchannels = 1, nframes = 2, chunk = [0, 0, 0, 0]\<rparr>"
    by (simp add: no_speech_host_def offline_def)
  show ?thesis
    using two_attempt_pipeline [of "offline\<lparr>pydub_installed := True, pydub_to_wav := (\<lambda>b. Inr [1])\<rparr>" "[0]"]
      two_attempt_pipeline [of no_speech_host "[0, 0, 0, 0]"] a b c
    by (simp add: sampwidth_def)
qed

section \<open>Properties of the recognition request\<close>

text \<open>
  What lines 366 to 378 do on every invocation that has acquired and normalized its audio
  and whose request is answered with HTTP 200 and a JSON object whose \<open>result\<close> is the empty
  string: no message is yielded, and an exception with the message
  \<open>No speech detected in the audio file\<close> is logged and raised.
\<close>

lemma no_speech_raises:
  assumes "truthy_audio_file (Some af)"
    and "api_key env = Some key"
    and "key \<noteq> []"
    and "get_audio_data_from_file env af = (evs1, Inr (Bytes audio_data))"
    and "audio_data \<noteq> []"
    and "normalization_decision env audio_data = (evs3, Inr (pcm_data, sample_rate))"
    and "http_post env (stt_request key (case lang of None \<Rightarrow> ''ru-RU'' | Some l \<Rightarrow> l)
           (case tpc of None \<Rightarrow> ''general'' | Some t \<Rightarrow> t) pcm_data sample_rate) = Inr response"
    and "status_code response = 200"
    and "json_body response = Inr (JObj kvs)"
    and "map_of kvs ''result'' = Some (JStr [])"
  shows "\<exists>evs. invoke_stt env \<lparr>audio_file = Some af, language = lang, topic = tpc\<rparr> =
           (evs @ [Log ERROR ''Speech recognition error: No speech detected in the audio file''],
            [], Some (Exception ''No speech detected in the audio file''))"
proof -
  obtain a as where "audio_data = a # as" using assms(5) by (cases audio_data) auto
  then show ?thesis
    using assms
    by (simp add: invoke_stt_def recognize_def stt_failure_def Let_def)
qed

lemma host_acquire:
  "get_audio_data_from_file no_speech_host (RawBytes [0xE8, 0x03, 0xE8, 0x03]) =
     ([Log INFO ''Processing audio file of type: {type(audio_file)}'',
       Log INFO ''Processing raw bytes data''],
      Inr (Bytes [0xE8, 0x03, 0xE8, 0x03]))"
  by (simp add: get_audio_data_from_file_def no_attributes_def)

lemma host_normalize:
  "normalization_decision no_speech_host [0xE8, 0x03, 0xE8, 0x03] =
     ([Call ''_convert_wav_to_pcm'', ReadFrames 2, Log INFO ''Audio processed as WAV directly''],
      Inr ([0xE8, 0x03, 0xE8, 0x03], 16000))"
  by (simp add: normalization_decision_def convert_wav_to_pcm_def no_speech_host_def offline_def
      sampwidth_def readframes_def gain_normalization_def rms_1000 select_gain_def Let_def)

text \<open>
  Claim C1 at its failing input. On the host that hears nothing the response has status 200
  and an empty \<open>result\<close>. The claim, and the test \<open>test_no_speech_detected\<close> of the
  repository, ask for one text message \<open>No speech detected in the audio file\<close>. The code
  yields no message and ends in a raised exception that carries the text.
\<close>

theorem no_speech_failing_input:
  "http_post no_speech_host (stt_request ''secret'' ''ru-RU'' ''general'' [0xE8, 0x03, 0xE8, 0x03] 16000)
      = Inr no_speech_response
   \<and> status_code no_speech_response = 200
   \<and> json_body no_speech_response = Inr (JObj [(''result'', JStr [])])
   \<and> fst (snd (invoke_stt no_speech_host
        \<lparr>audio_file = Some (RawBytes [0xE8, 0x03, 0xE8, 0x03]), language = None, topic = None\<rparr>))
      = []
   \<and> snd (snd (invoke_stt no_speech_host
        \<lparr>audio_file = Some (RawBytes [0xE8, 0x03, 0xE8, 0x03]), language = None, topic = None\<rparr>))
      = Some (Exception ''No speech detected in the audio file'')"
proof -
  have k: "api_key no_speech_host = Some ''secret''" "http_post no_speech_host = (\<lambda>r. Inr no_speech_response)"
    by (simp_all add: no_speech_host_def offline_def)
  show ?thesis
    by (simp add: invoke_stt_def host_acquire host_normalize k recognize_def stt_failure_def
        no_speech_response_def Let_def)
qed

section \<open>Properties of the synthesis tool\<close>

lemma validate_filipp_good:
  "validate_parameters env
     \<lparr>p_text = Some ''hello'', p_voice = Some ''filipp'', p_emotion = Some ''good'',
      p_speed = Some (SpeedNumber 1), p_format = Some ''mp3''\<rparr> =
   Inl (ValueError ''Emotion 'good' is not supported by voice 'filipp'. Allowed: neutral'')"
  by (simp add: validate_parameters_def strip_def is_space_def VOICE_DESCRIPTIONS_def
      VOICE_ALLOWED_EMOTIONS_def quoted_def Let_def)

text \<open>
  Claim C8. Validating text "hello", voice "filipp", emotion "good", speed 1.0 and format
  "mp3" raises \<open>ValueError\<close> with the message below, which contains "not supported by
  voice"; \<open>_invoke\<close> on these parameters posts no request and yields no message in any
  environment, and with an API key it raises the parameter error around that message.
\<close>

theorem filipp_good_rejected:
  "validate_parameters env
     \<lparr>p_text = Some ''hello'', p_voice = Some ''filipp'', p_emotion = Some ''good'',
      p_speed = Some (SpeedNumber 1), p_format = Some ''mp3''\<rparr> =
   Inl (ValueError ''Emotion 'good' is not supported by voice 'filipp'. Allowed: neutral'')
   \<and> sublist ''not supported by voice''
         ''Emotion 'good' is not supported by voice 'filipp'. Allowed: neutral''
   \<and> posted (fst (invoke_tts env
         \<lparr>p_text = Some ''hello'', p_voice = Some ''filipp'', p_emotion = Some ''good'',
          p_speed = Some (SpeedNumber 1), p_format = Some ''mp3''\<rparr>)) = []
   \<and> fst (snd (invoke_tts env
         \<lparr>p_text = Some ''hello'', p_voice = Some ''filipp'', p_emotion = Some ''good'',
          p_speed = Some (SpeedNumber 1), p_format = Some ''mp3''\<rparr>)) = []
   \<and> (truthy_str (api_key env) \<longrightarrow>
        snd (snd (invoke_tts env
         \<lparr>p_text = Some ''hello'', p_voice = Some ''filipp'', p_emotion = Some ''good'',
          p_speed = Some (SpeedNumber 1), p_format = Some ''mp3''\<rparr>)) =
        Some (Exception ''Parameter error: Emotion 'good' is not supported by voice 'filipp'. Allowed: neutral''))"
proof -
  have s: "sublist ''not supported by voice''
         ''Emotion 'good' is not supported by voice 'filipp'. Allowed: neutral''"
    unfolding sublist_def
    by (intro exI [of _ "''Emotion 'good' is ''"]
        exI [of _ "'' 'filipp'. Allowed: neutral''"]) simp
  show ?thesis
    using s by (simp add: validate_filipp_good invoke_tts_def tts_failure_def)
qed

text \<open>
  The whole run on a host with an API key.
\<close>

theorem filipp_good_rejected_witness:
  "invoke_tts (offline\<lparr>api_key := Some ''secret''\<rparr>)
         \<lparr>p_text = Some ''hello'', p_voice = Some ''filipp'', p_emotion = Some ''good'',
          p_speed = Some (SpeedNumber 1), p_format = Some ''mp3''\<rparr> =
   ([Log ERROR ''TTS error: Parameter error: Emotion 'good' is not supported by voice 'filipp'. Allowed: neutral''],
    [],
    Some (Exception ''Parameter error: Emotion 'good' is not supported by voice 'filipp'. Allowed: neutral''))"
  using filipp_good_rejected [of "offline\<lparr>api_key := Some ''secret''\<rparr>"]
  by (simp add: invoke_tts_def tts_failure_def offline_def)

lemma empty_body:
  assumes "api_key env = Some key" and "key \<noteq> []"
    and "validate_parameters env p = Inr params"
    and "http_post env (tts_request key params) = Inr response"
    and "status_code response = 200" and "content response = []"
  shows "\<exists>evs. invoke_tts env p =
           (evs @ [Log ERROR ''TTS error: Empty response from TTS service''], [],
            Some (Exception ''Empty response from TTS service''))"
  using assms by (simp add: invoke_tts_def tts_failure_def Let_def)

lemma yields_only_on_body:
  assumes "fst (snd (invoke_tts env p)) \<noteq> []"
  shows "\<exists>key params response. api_key env = Some key
           \<and> validate_parameters env p = Inr params
           \<and> http_post env (tts_request key params) = Inr response
           \<and> status_code response = 200 \<and> content response \<noteq> []
           \<and> snd (snd (invoke_tts env p)) = None"
proof (cases "api_key env")
  case None
  then show ?thesis using assms by (simp add: invoke_tts_def tts_failure_def)
next
  case (Some key)
  show ?thesis
  proof (cases "key = []")
    case True
    then show ?thesis using assms Some by (simp add: invoke_tts_def tts_failure_def)
  next
    case False
    show ?thesis
    proof (cases "validate_parameters env p")
      case (Inl e)
      then show ?thesis using assms Some False by (simp add: invoke_tts_def tts_failure_def)
    next
      case (Inr params)
      show ?thesis
      proof (cases "http_post env (tts_request key params)")
        case (Inl e)
        then show ?thesis using assms Some False Inr
          by (cases e) (simp_all add: invoke_tts_def tts_failure_def Let_def)
      next
        case r: (Inr response)
        show ?thesis
        proof (cases "status_code response = 200 \<and> content response \<noteq> []")
          case True
          then show ?thesis using Some False Inr r
            by (simp add: invoke_tts_def tts_failure_def Let_def)
        next
          case no: False
          then show ?thesis using assms Some False Inr r
            by (auto simp add: invoke_tts_def tts_failure_def Let_def split: if_splits)
        qed
      qed
    qed
  qed
qed

text \<open>
  Claim C10. When the synthesis endpoint answers the request with HTTP 200 and an empty body,
  \<open>_invoke\<close> yields no message and raises \<open>Empty response from TTS service\<close>. And whenever
  \<open>_invoke\<close> yields a message at all, the request was answered with HTTP 200 and a
  non-empty body and no exception was raised.
\<close>

theorem empty_body_raises:
  "(\<forall>key params response.
       api_key env = Some key \<and> key \<noteq> []
       \<and> validate_parameters env p = Inr params
       \<and> http_post env (tts_request key params) = Inr response
       \<and> status_code response = 200 \<and> content response = [] \<longrightarrow>
       (\<exists>evs. invoke_tts env p =
           (evs @ [Log ERROR ''TTS error: Empty response from TTS service''], [],
            Some (Exception ''Empty response from TTS service''))))
   \<and> (fst (snd (invoke_tts env p)) \<noteq> [] \<longrightarrow>
       (\<exists>key params response. api_key env = Some key
           \<and> validate_parameters env p = Inr params
           \<and> http_post env (tts_request key params) = Inr response
           \<and> status_code response = 200 \<and> content response \<noteq> []
           \<and> snd (snd (invoke_tts env p)) = None))"
  using empty_body [of env _ p] yields_only_on_body [of env p] by blast

text \<open>
  A host that answers every request with HTTP 200 and no body.
\<close>

theorem empty_body_raises_witness:
  "\<exists>evs. invoke_tts
      (offline\<lparr>api_key := Some ''secret'',
        http_post := (\<lambda>r. Inr \<lparr>status_code = 200, content = [], text_body = [],
                                 json_body = Inl (LibraryError ''Expecting value'')\<rparr>)\<rparr>)
      \<lparr>p_text = Some ''hello'', p_voice = None, p_emotion = None, p_speed = None, p_format = Some ''opus''\<rparr>
    = (evs @ [Log ERROR ''TTS error: Empty response from TTS service''], [],
       Some (Exception ''Empty response from TTS service''))"
proof -
  have v: "validate_parameters (offline\<lparr>api_key := Some ''secret'',
        http_post := (\<lambda>r. Inr \<lparr>status_code = 200, content = [], text_body = [],
                                 json_body = Inl (LibraryError ''Expecting value'')\<rparr>)\<rparr>)
      \<lparr>p_text = Some ''hello'', p_voice = None, p_emotion = None, p_speed = None, p_format = Some ''opus''\<rparr>
    = Inr \<lparr>sp_text = ''hello'', sp_voice = ''marina'', sp_emotion = ''neutral'', sp_speed = ''1.0'',
           sp_format = ''oggopus''\<rparr>"
    by (simp add: validate_parameters_def strip_def is_space_def VOICE_DESCRIPTIONS_def
        VOICE_ALLOWED_EMOTIONS_def offline_def Let_def)
  have k: "api_key (offline\<lparr>api_key := Some ''secret'',
        http_post := (\<lambda>r. Inr \<lparr>status_code = 200, content = [], text_body = [],
                                 json_body = Inl (LibraryError ''Expecting value'')\<rparr>)\<rparr>) = Some ''secret''"
    by simp
  have r: "http_post (offline\<lparr>api_key := Some ''secret'',
        http_post := (\<lambda>r. Inr \<lparr>status_code = 200, content = [], text_body = [],
                                 json_body = Inl (LibraryError ''Expecting value'')\<rparr>)\<rparr>) q
     = Inr \<lparr>status_code = 200, content = [], text_body = [],
                                 json_body = Inl (LibraryError ''Expecting value'')\<rparr>" for q
    by simp
  show ?thesis
    using empty_body_raises [of "offline\<lparr>api_key := Some ''secret'',
        http_post := (\<lambda>r. Inr \<lparr>status_code = 200, content = [], text_body = [],
                                 json_body = Inl (LibraryError ''Expecting value'')\<rparr>)\<rparr>"
        "\<lparr>p_text = Some ''hello'', p_voice = None, p_emotion = None, p_speed = None, p_format = Some ''opus''\<rparr>"]
      v k r
    by simp
qed

end
